theory Spec2Isabelle
  imports Complex_Main "HOL-Library.Multiset" "HOL-Library.Product_Lexorder"
    "HOL-Library.Char_ord" "HOL-Library.List_Lexorder"
begin

section \<open>Data model of \<^verbatim>\<open>Secret/slush_fund_detector.py\<close>\<close>

text \<open>
  Python floats and numpy numbers are modelled by exact rationals; the two numpy
  divisions whose divisor can be zero get their own result type below. Strings are byte
  strings (UTF-8); \<^verbatim>\<open>str.lower\<close> is modelled on ASCII letters.
\<close>

datatype RiskLevel = LOW | MEDIUM | HIGH | CRITICAL

fun risk_value :: "RiskLevel \<Rightarrow> int" where
  "risk_value LOW = 1"
| "risk_value MEDIUM = 2"
| "risk_value HIGH = 3"
| "risk_value CRITICAL = 4"

fun risk_name :: "RiskLevel \<Rightarrow> string" where
  "risk_name LOW = ''LOW''"
| "risk_name MEDIUM = ''MEDIUM''"
| "risk_name HIGH = ''HIGH''"
| "risk_name CRITICAL = ''CRITICAL''"

record datetime =
  year :: nat
  month :: nat
  day :: nat
  hour :: nat
  minute :: nat
  second :: nat
  microsecond :: nat

record Alert =
  account_id :: string
  alert_type :: string
  risk_level :: RiskLevel
  confidence_score :: rat
  description :: string
  evidence :: "string list"
  timestamp :: datetime
  amount_involved :: rat

section \<open>Python and pandas primitives\<close>

datatype error = KeyError string | ValueError string | ZeroDivisionError | IndexError

subsection \<open>Numbers\<close>

text \<open>Python's \<^verbatim>\<open>x % m\<close> on numbers, for a positive \<open>m\<close>.\<close>

definition py_mod :: "rat \<Rightarrow> rat \<Rightarrow> rat" where
  "py_mod x m = x - m * of_int \<lfloor>x / m\<rfloor>"

text \<open>\<^verbatim>\<open>a / b\<close> on two Python ints (here: lengths) raises on a zero divisor.\<close>

definition py_truediv :: "nat \<Rightarrow> nat \<Rightarrow> error + rat" where
  "py_truediv a b = (if b = 0 then Inl ZeroDivisionError else Inr (of_nat a / of_nat b))"

text \<open>
  \<^verbatim>\<open>a / b\<close> on two numpy scalars (column sums) never raises: a zero divisor gives an
  infinity or nan, and every comparison with nan is false.
\<close>

datatype npfloat = Fin rat | PosInf | NegInf | NaN

definition np_div :: "rat \<Rightarrow> rat \<Rightarrow> npfloat" where
  "np_div a b =
     (if b \<noteq> 0 then Fin (a / b) else if a > 0 then PosInf else if a < 0 then NegInf else NaN)"

fun np_gt :: "npfloat \<Rightarrow> rat \<Rightarrow> bool" where
  "np_gt (Fin x) c = (x > c)"
| "np_gt PosInf c = True"
| "np_gt NegInf c = False"
| "np_gt NaN c = False"

subsection \<open>Strings and number formatting\<close>

definition lower_char :: "char \<Rightarrow> char" where
  "lower_char c =
     (if CHR ''A'' \<le> c \<and> c \<le> CHR ''Z'' then char_of (of_char c + (32::nat)) else c)"

definition lower :: "string \<Rightarrow> string" where
  "lower s = map lower_char s"

definition starts_with :: "string \<Rightarrow> string \<Rightarrow> bool" where
  "starts_with s pat = (take (length pat) s = pat)"

text \<open>Substring search: what a regular expression without metacharacters matches.\<close>

fun contains :: "string \<Rightarrow> string \<Rightarrow> bool" where
  "contains [] pat = (pat = [])"
| "contains (c # cs) pat = (starts_with (c # cs) pat \<or> contains cs pat)"

definition contains_any :: "string list \<Rightarrow> string \<Rightarrow> bool" where
  "contains_any pats s = list_ex (contains s) pats"

text \<open>
  First match of the alternation \<^verbatim>\<open>(k1|k2|...)\<close>: the leftmost position where
  some alternative matches, and there the first alternative that does.
\<close>

fun extract_first :: "string list \<Rightarrow> string \<Rightarrow> string option" where
  "extract_first pats [] = find (\<lambda>k. k = []) pats"
| "extract_first pats (c # cs) =
     (case find (starts_with (c # cs)) pats of
        Some k \<Rightarrow> Some k
      | None \<Rightarrow> extract_first pats cs)"

fun join :: "string \<Rightarrow> string list \<Rightarrow> string" where
  "join sep [] = []"
| "join sep [x] = x"
| "join sep (x # y # ys) = x @ sep @ join sep (y # ys)"

definition digit_char :: "nat \<Rightarrow> char" where
  "digit_char d = char_of (48 + d)"

fun str_nat :: "nat \<Rightarrow> string" where
  "str_nat n = (if n < 10 then [digit_char n] else str_nat (n div 10) @ [digit_char (n mod 10)])"

declare str_nat.simps [simp del]

definition zero_pad :: "nat \<Rightarrow> string \<Rightarrow> string" where
  "zero_pad w s = replicate (w - length s) (CHR ''0'') @ s"

text \<open>The thousands separator of the format option \<^verbatim>\<open>,\<close>, on reversed digits.\<close>

fun group3 :: "string \<Rightarrow> string" where
  "group3 (a # b # c # d # rest) = a # b # c # CHR '','' # group3 (d # rest)"
| "group3 ds = ds"

definition with_commas :: "string \<Rightarrow> string" where
  "with_commas ds = rev (group3 (rev ds))"

definition round_half_even :: "rat \<Rightarrow> int" where
  "round_half_even x =
     (let f = \<lfloor>x\<rfloor>; r = x - of_int f
      in if r < 1 / 2 then f else if r > 1 / 2 then f + 1 else if even f then f else f + 1)"

text \<open>
  \<^verbatim>\<open>f"{x:.pf}"\<close> and \<^verbatim>\<open>f"{x:,.pf}"\<close>: the exact value rounded half-even to \<open>p\<close>
  decimals, a minus sign for a negative \<open>x\<close>.
\<close>

definition fmt_fixed :: "bool \<Rightarrow> nat \<Rightarrow> rat \<Rightarrow> string" where
  "fmt_fixed commas p x =
     (let n = nat (round_half_even (\<bar>x\<bar> * 10 ^ p));
          ip = str_nat (n div 10 ^ p);
          fp = zero_pad p (str_nat (n mod 10 ^ p))
      in (if x < 0 then ''-'' else [])
         @ (if commas then with_commas ip else ip)
         @ (if p = 0 then [] else CHR ''.'' # fp))"

text \<open>\<^verbatim>\<open>f"{x:.2%}"\<close>.\<close>

definition fmt_percent :: "rat \<Rightarrow> string" where
  "fmt_percent x = fmt_fixed False 2 (x * 100) @ ''%''"

fun fmt_percent_np :: "npfloat \<Rightarrow> string" where
  "fmt_percent_np (Fin x) = fmt_percent x"
| "fmt_percent_np PosInf = ''inf%''"
| "fmt_percent_np NegInf = ''-inf%''"
| "fmt_percent_np NaN = ''nan%''"

subsection \<open>Dates\<close>

text \<open>Python's proleptic Gregorian ordinal (\<^verbatim>\<open>date.toordinal\<close>).\<close>

definition is_leap :: "nat \<Rightarrow> bool" where
  "is_leap y \<longleftrightarrow> y mod 4 = 0 \<and> (y mod 100 \<noteq> 0 \<or> y mod 400 = 0)"

definition days_before_year :: "nat \<Rightarrow> nat" where
  "days_before_year y = (let p = y - 1 in p * 365 + p div 4 - p div 100 + p div 400)"

definition days_in_month :: "nat \<Rightarrow> nat \<Rightarrow> nat" where
  "days_in_month y m =
     (if m = 2 then (if is_leap y then 29 else 28)
      else if m \<in> {4, 6, 9, 11} then 30 else 31)"

definition days_before_month :: "nat \<Rightarrow> nat \<Rightarrow> nat" where
  "days_before_month y m = sum_list (map (days_in_month y) [1 ..< m])"

definition toordinal :: "datetime \<Rightarrow> nat" where
  "toordinal t = days_before_year (year t) + days_before_month (year t) (month t) + day t"

definition micros :: "datetime \<Rightarrow> int" where
  "micros t =
     int ((((toordinal t * 24 + hour t) * 60 + minute t) * 60 + second t) * 1000000
          + microsecond t)"

text \<open>\<^verbatim>\<open>(b - a).days\<close>: whole days of the difference, rounded down.\<close>

definition timedelta_days :: "datetime \<Rightarrow> datetime \<Rightarrow> int" where
  "timedelta_days a b = (micros b - micros a) div 86400000000"

text \<open>\<^verbatim>\<open>strftime('%Y-%m-%d %H:%M:%S')\<close>.\<close>

definition strftime :: "datetime \<Rightarrow> string" where
  "strftime t =
     zero_pad 4 (str_nat (year t)) @ ''-'' @ zero_pad 2 (str_nat (month t)) @ ''-''
     @ zero_pad 2 (str_nat (day t)) @ '' '' @ zero_pad 2 (str_nat (hour t)) @ '':''
     @ zero_pad 2 (str_nat (minute t)) @ '':'' @ zero_pad 2 (str_nat (second t))"

text \<open>\<^verbatim>\<open>.dt.date\<close>: the calendar day of a timestamp.\<close>

definition date_of :: "datetime \<Rightarrow> nat \<times> nat \<times> nat" where
  "date_of t = (year t, month t, day t)"

subsection \<open>The transactions table\<close>

text \<open>
  A \<^verbatim>\<open>DataFrame\<close> is modelled by the columns the detectors read or write, each
  absent (\<open>None\<close>) or a list of cells, and by its number of rows (\<^verbatim>\<open>len(df)\<close>).
  Amount cells are numbers. A date cell is text still to be parsed or a timestamp. The
  cells of the three text columns may be missing (\<open>None\<close>: pandas' NaN).
\<close>

datatype date_cell = Text string | Stamp datetime

record DataFrame =
  n_rows :: nat
  amount_col :: "rat list option"
  date_col :: "date_cell list option"
  description_col :: "string option list option"
  counterparty_col :: "string option list option"
  transaction_type_col :: "string option list option"
  day_of_month_col :: "nat list option"
  month_col :: "nat list option"

definition col_ok :: "nat \<Rightarrow> 'a list option \<Rightarrow> bool" where
  "col_ok n col = (case col of None \<Rightarrow> True | Some cells \<Rightarrow> length cells = n)"

text \<open>Every column that is present has one cell per row.\<close>

definition wf_frame :: "DataFrame \<Rightarrow> bool" where
  "wf_frame df \<longleftrightarrow>
     col_ok (n_rows df) (amount_col df) \<and> col_ok (n_rows df) (date_col df)
     \<and> col_ok (n_rows df) (description_col df) \<and> col_ok (n_rows df) (counterparty_col df)
     \<and> col_ok (n_rows df) (transaction_type_col df)
     \<and> col_ok (n_rows df) (day_of_month_col df) \<and> col_ok (n_rows df) (month_col df)"

text \<open>
  What the program takes from its surroundings: the successive readings of
  \<^verbatim>\<open>datetime.now()\<close>, pandas' date parser on one textual cell (\<open>None\<close>: it raises),
  and the iteration order of a Python \<^verbatim>\<open>set\<close> of strings, which depends on the
  interpreter's hash seed.
\<close>

record Env =
  clock :: "nat \<Rightarrow> datetime"
  parse_date :: "string \<Rightarrow> datetime option"
  set_iteration :: "string list \<Rightarrow> string list"

text \<open>
  The mutable state: the caller's table, which some detectors assign to, and the number
  of clock readings taken so far.
\<close>

record State =
  frame :: DataFrame
  ticks :: nat

definition tick :: "State \<Rightarrow> State" where
  "tick s = s\<lparr>ticks := Suc (ticks s)\<rparr>"

text \<open>\<^verbatim>\<open>df[mask]\<close>: the rows where the boolean mask holds, and their number.\<close>

definition mask_rows :: "bool list \<Rightarrow> 'a list \<Rightarrow> 'a list" where
  "mask_rows m xs = map snd (filter fst (zip m xs))"

definition mask_count :: "bool list \<Rightarrow> nat" where
  "mask_count m = length (filter id m)"

text \<open>\<^verbatim>\<open>pd.to_datetime(column)\<close>: raises at the first cell that does not parse.\<close>

fun to_datetime :: "Env \<Rightarrow> date_cell list \<Rightarrow> error + datetime list" where
  "to_datetime env [] = Inr []"
| "to_datetime env (Stamp t # cells) =
     (case to_datetime env cells of Inl e \<Rightarrow> Inl e | Inr ts \<Rightarrow> Inr (t # ts))"
| "to_datetime env (Text x # cells) =
     (case parse_date env x of
        None \<Rightarrow> Inl (ValueError x)
      | Some t \<Rightarrow> (case to_datetime env cells of Inl e \<Rightarrow> Inl e | Inr ts \<Rightarrow> Inr (t # ts)))"

text \<open>
  A descending sort that keeps ties in their given order, as pandas'
  \<^verbatim>\<open>sort_values(ascending=False)\<close> does with a stable kind. (With the default kind the
  order of ties is up to numpy; only the evidence texts of two detectors can show it.)
\<close>

definition sort_desc :: "('a \<Rightarrow> 'k::linorder) \<Rightarrow> 'a list \<Rightarrow> 'a list" where
  "sort_desc f xs = rev (sort_key f (rev xs))"

definition distinct_first :: "'a list \<Rightarrow> 'a list" where
  "distinct_first xs = rev (remdups (rev xs))"

text \<open>
  \<^verbatim>\<open>Series.value_counts()\<close>: the count of each value that is not missing, most
  frequent first.
\<close>

definition value_counts :: "'a option list \<Rightarrow> ('a \<times> nat) list" where
  "value_counts col =
     (let vals = List.map_filter id col
      in sort_desc snd (map (\<lambda>k. (k, count_list vals k)) (distinct_first vals)))"

text \<open>
  \<^verbatim>\<open>df.groupby(key)['amount'].sum()\<close>: groups in ascending key order, rows with a
  missing key dropped.
\<close>

definition group_sum :: "('k::linorder) option list \<Rightarrow> rat list \<Rightarrow> ('k \<times> rat) list" where
  "group_sum keys amts =
     map (\<lambda>k. (k, sum_list (map snd (filter (\<lambda>(k', a). k' = Some k) (zip keys amts)))))
       (sort (remdups (List.map_filter id keys)))"

section \<open>Detectors\<close>

definition suspicious_keywords :: "string list" where
  "suspicious_keywords =
     [''consulting'', ''advisory'', ''services'', ''misc'', ''miscellaneous'',
      ''general'', ''expenses'', ''petty cash'', ''discretionary'', ''contingency'',
      ''emergency'', ''special projects'', ''undefined'', ''various'',
      ''entertainment'', ''representation'', ''goodwill'', ''hospitality'']"

subsection \<open>Round numbers\<close>

definition is_round :: "rat \<Rightarrow> bool" where
  "is_round x \<longleftrightarrow> py_mod x 100 = 0 \<or> py_mod x 50 = 0"

definition detect_round_number_patterns ::
  "Env \<Rightarrow> string \<Rightarrow> State \<Rightarrow> (error + Alert list) \<times> State" where
  "detect_round_number_patterns env account s =
     (case amount_col (frame s) of
        None \<Rightarrow> (Inl (KeyError ''amount''), s)
      | Some amts \<Rightarrow>
          let mask = map is_round amts;
              n_round = mask_count mask;
              total_transactions = n_rows (frame s)
          in if total_transactions > 10 then
               (case py_truediv n_round total_transactions of
                  Inl e \<Rightarrow> (Inl e, s)
                | Inr round_percentage \<Rightarrow>
                    if round_percentage > 6 / 10 then
                      (Inr [\<lparr>account_id = account,
                             alert_type = ''Round Number Pattern'',
                             risk_level = (if round_percentage < 8 / 10 then MEDIUM else HIGH),
                             confidence_score = min (round_percentage * 100) 95,
                             description =
                               ''Unusually high percentage of round-number transactions'',
                             evidence =
                               [str_nat n_round @ '' out of '' @ str_nat total_transactions
                                  @ '' transactions are round numbers'',
                                ''Round number percentage: '' @ fmt_percent round_percentage],
                             timestamp = clock env (ticks s),
                             amount_involved = sum_list (mask_rows mask amts)\<rparr>],
                       tick s)
                    else (Inr [], s))
             else (Inr [], s))"

subsection \<open>Suspicious descriptions\<close>

definition is_vague :: "string option \<Rightarrow> bool" where
  "is_vague d = (case d of None \<Rightarrow> False | Some t \<Rightarrow> contains_any suspicious_keywords (lower t))"

text \<open>The keywords found in the vague rows, as the set the evidence line joins.\<close>

definition matched_keywords :: "Env \<Rightarrow> string option list \<Rightarrow> string list" where
  "matched_keywords env vague =
     set_iteration env
       (remdups (List.map_filter
          (\<lambda>d. case d of None \<Rightarrow> None | Some t \<Rightarrow> extract_first suspicious_keywords (lower t))
          vague))"

definition detect_suspicious_descriptions ::
  "Env \<Rightarrow> string \<Rightarrow> State \<Rightarrow> (error + Alert list) \<times> State" where
  "detect_suspicious_descriptions env account s =
     (case description_col (frame s) of
        None \<Rightarrow> (Inr [], s)
      | Some descs \<Rightarrow>
          let mask = map is_vague descs;
              n_vague = mask_count mask
          in case
               (if of_nat n_vague > (of_nat (n_rows (frame s)) :: rat) * (3 / 10) then
                  (case amount_col (frame s) of
                     None \<Rightarrow> (Inl (KeyError ''amount''), tick s)
                   | Some amts \<Rightarrow>
                       (Inr [\<lparr>account_id = account,
                              alert_type = ''Vague Transaction Descriptions'',
                              risk_level = MEDIUM,
                              confidence_score = 75,
                              description =
                                ''High frequency of vague or generic transaction descriptions'',
                              evidence =
                                [''Found '' @ str_nat n_vague
                                   @ '' transactions with vague descriptions'',
                                 ''Common suspicious keywords: ''
                                   @ join '', '' (matched_keywords env (mask_rows mask descs))],
                              timestamp = clock env (ticks s),
                              amount_involved = sum_list (mask_rows mask amts)\<rparr>],
                        tick s))
                else (Inr [], s))
             of
               (Inl e, s1) \<Rightarrow> (Inl e, s1)
             | (Inr alerts, s1) \<Rightarrow>
                 let repeated_descriptions = filter (\<lambda>(d, c). c > 5) (value_counts descs)
                 in if length repeated_descriptions > 0 then
                      (Inr (alerts @
                         [\<lparr>account_id = account,
                           alert_type = ''Repeated Transaction Descriptions'',
                           risk_level = MEDIUM,
                           confidence_score = 60,
                           description = ''Multiple transactions with identical descriptions'',
                           evidence =
                             map (\<lambda>(d, c). ''Description '' @ [CHR 0x27] @ d @ [CHR 0x27]
                                    @ '' appears '' @ str_nat c @ '' times'')
                               (take 5 repeated_descriptions),
                           timestamp = clock env (ticks s1),
                           amount_involved = 0\<rparr>]),
                       tick s1)
                    else (Inr alerts, s1))"

subsection \<open>Threshold avoidance\<close>

definition thresholds :: "nat list" where
  "thresholds = [10000, 5000, 3000, 1000]"

definition near_threshold :: "nat \<Rightarrow> rat \<Rightarrow> bool" where
  "near_threshold threshold x \<longleftrightarrow> x \<ge> of_nat threshold * (9 / 10) \<and> x < of_nat threshold"

definition threshold_alert :: "Env \<Rightarrow> string \<Rightarrow> nat \<Rightarrow> rat list \<Rightarrow> nat \<Rightarrow> Alert" where
  "threshold_alert env account threshold near k =
     \<lparr>account_id = account,
      alert_type = ''Threshold Avoidance'',
      risk_level = (if threshold \<ge> 10000 then HIGH else MEDIUM),
      confidence_score = 80,
      description = ''Multiple transactions appear to avoid $'' @ with_commas (str_nat threshold)
                      @ '' reporting threshold'',
      evidence =
        [str_nat (length near) @ '' transactions between $''
           @ fmt_fixed True 0 (of_nat threshold * (9 / 10)) @ '' and $''
           @ fmt_fixed True 0 (of_nat threshold),
         ''Average amount: $'' @ fmt_fixed True 2 (sum_list near / of_nat (length near))],
      timestamp = clock env k,
      amount_involved = sum_list near\<rparr>"

text \<open>The loop over the thresholds; \<open>alerts\<close> is the list built so far.\<close>

fun threshold_loop ::
  "Env \<Rightarrow> string \<Rightarrow> nat list \<Rightarrow> Alert list \<Rightarrow> State \<Rightarrow> (error + Alert list) \<times> State" where
  "threshold_loop env account [] alerts s = (Inr alerts, s)"
| "threshold_loop env account (threshold # rest) alerts s =
     (case amount_col (frame s) of
        None \<Rightarrow> (Inl (KeyError ''amount''), s)
      | Some amts \<Rightarrow>
          let near = mask_rows (map (near_threshold threshold) amts) amts
          in if length near > 3 then
               threshold_loop env account rest
                 (alerts @ [threshold_alert env account threshold near (ticks s)]) (tick s)
             else threshold_loop env account rest alerts s)"

definition detect_threshold_avoidance ::
  "Env \<Rightarrow> string \<Rightarrow> State \<Rightarrow> (error + Alert list) \<times> State" where
  "detect_threshold_avoidance env account s = threshold_loop env account thresholds [] s"

subsection \<open>Transaction frequency\<close>

text \<open>
  \<^verbatim>\<open>.diff().dt.days\<close> on the sorted dates: nothing for the first row, then the whole
  days since the row before.
\<close>

fun diff_days :: "datetime list \<Rightarrow> int option list" where
  "diff_days [] = []"
| "diff_days (t # ts) = None # map2 (\<lambda>a b. Some (timedelta_days a b)) (t # ts) ts"

definition within_one_day :: "int option \<Rightarrow> bool" where
  "within_one_day g = (case g of None \<Rightarrow> False | Some d \<Rightarrow> d \<le> 1)"

definition detect_unusual_frequency_patterns ::
  "Env \<Rightarrow> string \<Rightarrow> State \<Rightarrow> (error + Alert list) \<times> State" where
  "detect_unusual_frequency_patterns env account s =
     (case date_col (frame s) of
        None \<Rightarrow> (Inr [], s)
      | Some cells \<Rightarrow>
          (case to_datetime env cells of
             Inl e \<Rightarrow> (Inl e, s)
           | Inr stamps \<Rightarrow>
               let s1 = s\<lparr>frame := (frame s)\<lparr>date_col := Some (map Stamp stamps)\<rparr>\<rparr>;
                   days_since_last = diff_days (sort_key micros stamps);
                   n_recent = mask_count (map within_one_day days_since_last)
               in if of_nat n_recent > (of_nat (n_rows (frame s1)) :: rat) * (4 / 10) then
                    (Inr [\<lparr>account_id = account,
                           alert_type = ''Burst Transaction Pattern'',
                           risk_level = MEDIUM,
                           confidence_score = 65,
                           description =
                             ''Unusual concentration of transactions in short time periods'',
                           evidence =
                             [str_nat n_recent
                                @ '' transactions occurred within 1 day of another transaction'',
                              ''Indicates potential burst activity pattern''],
                           timestamp = clock env (ticks s1),
                           amount_involved = 0\<rparr>],
                     tick s1)
                  else (Inr [], s1)))"

subsection \<open>End of period\<close>

definition detect_end_of_period_activities ::
  "Env \<Rightarrow> string \<Rightarrow> State \<Rightarrow> (error + Alert list) \<times> State" where
  "detect_end_of_period_activities env account s =
     (case date_col (frame s) of
        None \<Rightarrow> (Inr [], s)
      | Some cells \<Rightarrow>
          (case to_datetime env cells of
             Inl e \<Rightarrow> (Inl e, s)
           | Inr stamps \<Rightarrow>
               let s1 = s\<lparr>frame := (frame s)\<lparr>date_col := Some (map Stamp stamps),
                                             day_of_month_col := Some (map day stamps),
                                             month_col := Some (map month stamps)\<rparr>\<rparr>;
                   total = n_rows (frame s1);
                   mask = map (\<lambda>d. d \<ge> 28) (map day stamps);
                   n_end = mask_count mask
               in case
                    (if of_nat n_end > (of_nat total :: rat) * (25 / 100) then
                       (case py_truediv n_end total of
                          Inl e \<Rightarrow> (Inl e, s1)
                        | Inr share \<Rightarrow>
                            (case amount_col (frame s1) of
                               None \<Rightarrow> (Inl (KeyError ''amount''), tick s1)
                             | Some amts \<Rightarrow>
                                 (Inr [\<lparr>account_id = account,
                                        alert_type = ''End-of-Period Clustering'',
                                        risk_level = MEDIUM,
                                        confidence_score = 70,
                                        description =
                                          ''Unusual concentration of transactions at month-end'',
                                        evidence =
                                          [str_nat n_end
                                             @ '' transactions occur in last 3 days of month'',
                                           ''End-of-month transaction percentage: ''
                                             @ fmt_percent share],
                                        timestamp = clock env (ticks s1),
                                        amount_involved = sum_list (mask_rows mask amts)\<rparr>],
                                  tick s1)))
                     else (Inr [], s1))
                  of
                    (Inl e, s2) \<Rightarrow> (Inl e, s2)
                  | (Inr alerts, s2) \<Rightarrow>
                      let n_quarter =
                            mask_count (map (\<lambda>m. m \<in> set [3, 6, 9, 12]) (map month stamps))
                      in if of_nat n_quarter > (of_nat total :: rat) * (4 / 10) then
                           (Inr (alerts @
                              [\<lparr>account_id = account,
                                alert_type = ''Quarter-End Pattern'',
                                risk_level = MEDIUM,
                                confidence_score = 65,
                                description = ''Unusual pattern of quarter-end transactions'',
                                evidence =
                                  [''High concentration of transactions at quarter-ends: ''
                                     @ str_nat n_quarter @ '' transactions''],
                                timestamp = clock env (ticks s2),
                                amount_involved = 0\<rparr>]),
                            tick s2)
                         else (Inr alerts, s2)))"

subsection \<open>Counterparties\<close>

definition detect_unusual_counterparties ::
  "Env \<Rightarrow> string \<Rightarrow> State \<Rightarrow> (error + Alert list) \<times> State" where
  "detect_unusual_counterparties env account s =
     (case counterparty_col (frame s) of
        None \<Rightarrow> (Inr [], s)
      | Some parties \<Rightarrow>
          let counterparty_counts = value_counts parties
          in case amount_col (frame s) of
               None \<Rightarrow> (Inl (KeyError ''Column not found: amount''), s)
             | Some amts \<Rightarrow>
                 let total_amount_by_counterparty = sort_desc snd (group_sum parties amts)
                 in if length counterparty_counts > 0 then
                      (case total_amount_by_counterparty of
                         [] \<Rightarrow> (Inl IndexError, s)
                       | (top_name, top_total) # _ \<Rightarrow>
                           let top_counterparty_share = np_div top_total (sum_list amts)
                           in if np_gt top_counterparty_share (5 / 10) then
                                (Inr [\<lparr>account_id = account,
                                       alert_type = ''Counterparty Concentration'',
                                       risk_level = HIGH,
                                       confidence_score = 80,
                                       description =
                                         ''High concentration of transactions with single counterparty'',
                                       evidence =
                                         [''Top counterparty accounts for ''
                                            @ fmt_percent_np top_counterparty_share
                                            @ '' of total transaction volume'',
                                          ''Counterparty: '' @ top_name],
                                       timestamp = clock env (ticks s),
                                       amount_involved = top_total\<rparr>],
                                 tick s)
                              else (Inr [], s))
                    else (Inr [], s))"

subsection \<open>Cash intensity\<close>

definition is_cash :: "string option \<Rightarrow> bool" where
  "is_cash t =
     (case t of
        None \<Rightarrow> False
      | Some x \<Rightarrow> contains_any [''cash'', ''atm'', ''withdrawal''] (lower x))"

definition detect_cash_intensive_patterns ::
  "Env \<Rightarrow> string \<Rightarrow> State \<Rightarrow> (error + Alert list) \<times> State" where
  "detect_cash_intensive_patterns env account s =
     (case transaction_type_col (frame s) of
        None \<Rightarrow> (Inr [], s)
      | Some types \<Rightarrow>
          let mask = map is_cash types;
              n_cash = mask_count mask
          in if n_cash > 0 then
               (case py_truediv n_cash (n_rows (frame s)) of
                  Inl e \<Rightarrow> (Inl e, s)
                | Inr cash_percentage \<Rightarrow>
                    (case amount_col (frame s) of
                       None \<Rightarrow> (Inl (KeyError ''amount''), s)
                     | Some amts \<Rightarrow>
                         let cash_total = sum_list (mask_rows mask amts);
                             cash_amount_percentage = np_div cash_total (sum_list amts)
                         in if cash_percentage > 3 / 10 \<or> np_gt cash_amount_percentage (4 / 10)
                            then
                              (Inr [\<lparr>account_id = account,
                                     alert_type = ''High Cash Activity'',
                                     risk_level =
                                       (if np_gt cash_amount_percentage (6 / 10) then HIGH
                                        else MEDIUM),
                                     confidence_score = 75,
                                     description = ''Unusually high level of cash transactions'',
                                     evidence =
                                       [''Cash transactions: '' @ fmt_percent cash_percentage
                                          @ '' by count, ''
                                          @ fmt_percent_np cash_amount_percentage
                                          @ '' by amount'',
                                        ''Total cash amount: $'' @ fmt_fixed True 2 cash_total],
                                     timestamp = clock env (ticks s),
                                     amount_involved = cash_total\<rparr>],
                               tick s)
                            else (Inr [], s)))
             else (Inr [], s))"

subsection \<open>Layering\<close>

text \<open>
  \<^verbatim>\<open>df.groupby([day, 'transaction_type'])['amount'].sum().unstack(fill_value=0)\<close>:
  a table with one row per calendar day and one column per transaction type that occur
  in a row with a type; a cell is the sum of the amounts of its day and type, 0 where
  there is none.
\<close>

definition keyed_rows ::
  "datetime list \<Rightarrow> string option list \<Rightarrow> rat list \<Rightarrow> ((nat \<times> nat \<times> nat) \<times> string \<times> rat) list" where
  "keyed_rows stamps types amts =
     List.map_filter
       (\<lambda>(t, ty, a). case ty of None \<Rightarrow> None | Some x \<Rightarrow> Some (date_of t, x, a))
       (zip stamps (zip types amts))"

definition daily_index :: "((nat \<times> nat \<times> nat) \<times> string \<times> rat) list \<Rightarrow> (nat \<times> nat \<times> nat) list" where
  "daily_index rows = sort (remdups (map fst rows))"

definition daily_columns :: "((nat \<times> nat \<times> nat) \<times> string \<times> rat) list \<Rightarrow> string list" where
  "daily_columns rows = sort (remdups (map (\<lambda>(d, x, a). x) rows))"

definition daily_cell ::
  "((nat \<times> nat \<times> nat) \<times> string \<times> rat) list \<Rightarrow> nat \<times> nat \<times> nat \<Rightarrow> string \<Rightarrow> rat" where
  "daily_cell rows d x = sum_list (map (\<lambda>(d', x', a). a) (filter (\<lambda>(d', x', a). d' = d \<and> x' = x) rows))"

definition detect_layering_patterns ::
  "Env \<Rightarrow> string \<Rightarrow> State \<Rightarrow> (error + Alert list) \<times> State" where
  "detect_layering_patterns env account s =
     (case (date_col (frame s), transaction_type_col (frame s)) of
        (Some cells, Some types) \<Rightarrow>
          (case to_datetime env cells of
             Inl e \<Rightarrow> (Inl e, s)
           | Inr stamps \<Rightarrow>
               let s1 = s\<lparr>frame := (frame s)\<lparr>date_col := Some (map Stamp stamps)\<rparr>\<rparr>
               in case amount_col (frame s1) of
                    None \<Rightarrow> (Inl (KeyError ''Column not found: amount''), s1)
                  | Some amts \<Rightarrow>
                      let rows = keyed_rows stamps types amts
                      in if ''deposit'' \<in> set (daily_columns rows)
                            \<and> ''withdrawal'' \<in> set (daily_columns rows) then
                           let same_day_activity =
                                 filter (\<lambda>d. daily_cell rows d ''deposit'' > 0
                                            \<and> daily_cell rows d ''withdrawal'' > 0)
                                   (daily_index rows)
                           in if of_nat (length same_day_activity)
                                   > (of_nat (length (daily_index rows)) :: rat) * (3 / 10) then
                                (Inr [\<lparr>account_id = account,
                                       alert_type = ''Layering Pattern'',
                                       risk_level = HIGH,
                                       confidence_score = 85,
                                       description =
                                         ''Rapid deposit and withdrawal patterns suggest potential layering'',
                                       evidence =
                                         [str_nat (length same_day_activity)
                                            @ '' days with both deposits and withdrawals'',
                                          ''Potential layering pattern detected''],
                                       timestamp = clock env (ticks s1),
                                       amount_involved = 0\<rparr>],
                                 tick s1)
                              else (Inr [], s1)
                         else (Inr [], s1))
      | _ \<Rightarrow> (Inr [], s))"

section \<open>Prioritizer\<close>

text \<open>
  \<^verbatim>\<open>sorted(alerts, key=lambda x: (x.risk_level.value, x.confidence_score), reverse=True)\<close>.
  Tuples compare lexicographically. CPython sorts stably and implements
  \<^verbatim>\<open>reverse=True\<close> by reversing the list, sorting it stably in ascending order and
  reversing the result; \<^const>\<open>sort_key\<close> is a stable ascending sort.
\<close>

definition alert_key :: "Alert \<Rightarrow> int \<times> rat" where
  "alert_key x = (risk_value (risk_level x), confidence_score x)"

definition prioritize_alerts :: "Alert list \<Rightarrow> Alert list" where
  "prioritize_alerts alerts = rev (sort_key alert_key (rev alerts))"

text \<open>The strict part of the descending order: \<open>a\<close> must come before \<open>b\<close>.\<close>

definition ranks_above :: "Alert \<Rightarrow> Alert \<Rightarrow> bool" where
  "ranks_above a b \<longleftrightarrow>
     risk_value (risk_level a) > risk_value (risk_level b)
     \<or> (risk_level a = risk_level b \<and> confidence_score a > confidence_score b)"

definition same_rank :: "Alert \<Rightarrow> Alert \<Rightarrow> bool" where
  "same_rank a b \<longleftrightarrow> risk_level a = risk_level b \<and> confidence_score a = confidence_score b"

section \<open>Orchestrator\<close>

text \<open>
  \<^verbatim>\<open>alerts.extend(detector(df, account_id))\<close>: an exception of the detector leaves
  \<^verbatim>\<open>analyze_account\<close> at once; there is no handler anywhere in the module.
\<close>

definition extend_with ::
  "(State \<Rightarrow> (error + Alert list) \<times> State) \<Rightarrow> (error + Alert list) \<times> State
   \<Rightarrow> (error + Alert list) \<times> State" where
  "extend_with detector r =
     (case r of
        (Inl e, s) \<Rightarrow> (Inl e, s)
      | (Inr alerts, s) \<Rightarrow>
          (case detector s of
             (Inl e, s') \<Rightarrow> (Inl e, s')
           | (Inr found, s') \<Rightarrow> (Inr (alerts @ found), s')))"

definition analyze_account ::
  "Env \<Rightarrow> (string \<rightharpoonup> string) \<Rightarrow> State \<Rightarrow> (error + Alert list) \<times> State" where
  "analyze_account env account_info s =
     (let account = (case account_info ''account_id'' of None \<Rightarrow> ''unknown'' | Some a \<Rightarrow> a);
          r = (Inr [], s);
          r = extend_with (detect_round_number_patterns env account) r;
          r = extend_with (detect_suspicious_descriptions env account) r;
          r = extend_with (detect_unusual_frequency_patterns env account) r;
          r = extend_with (detect_threshold_avoidance env account) r;
          r = extend_with (detect_end_of_period_activities env account) r;
          r = extend_with (detect_unusual_counterparties env account) r;
          r = extend_with (detect_cash_intensive_patterns env account) r;
          r = extend_with (detect_layering_patterns env account) r
      in case r of
           (Inl e, s') \<Rightarrow> (Inl e, s')
         | (Inr alerts, s') \<Rightarrow> (Inr (prioritize_alerts alerts), s'))"

section \<open>Reporter\<close>

definition nl :: string where
  "nl = [CHR 0x0A]"

text \<open>The bullet character U+2022 in UTF-8.\<close>

definition bullet :: string where
  "bullet = [CHR 0xE2, CHR 0x80, CHR 0xA2]"

definition report_header :: "datetime \<Rightarrow> nat \<Rightarrow> string \<Rightarrow> string" where
  "report_header now n account =
     ''SLUSH FUND DETECTION REPORT'' @ nl
     @ replicate 50 (CHR ''='') @ nl
     @ ''Account ID: '' @ account @ nl
     @ ''Analysis Date: '' @ strftime now @ nl
     @ ''Total Alerts: '' @ str_nat n @ nl @ nl"

text \<open>The dictionary \<^verbatim>\<open>risk_groups\<close>, filled in the order of the alerts.\<close>

fun group_by_risk :: "Alert list \<Rightarrow> (RiskLevel \<rightharpoonup> Alert list) \<Rightarrow> (RiskLevel \<rightharpoonup> Alert list)" where
  "group_by_risk [] groups = groups"
| "group_by_risk (a # as) groups =
     group_by_risk as
       (case groups (risk_level a) of
          None \<Rightarrow> groups(risk_level a \<mapsto> [a])
        | Some found \<Rightarrow> groups(risk_level a \<mapsto> found @ [a]))"

definition report_alert :: "Alert \<Rightarrow> string" where
  "report_alert a =
     nl @ ''Alert Type: '' @ alert_type a @ nl
     @ ''Confidence Score: '' @ fmt_fixed False 1 (confidence_score a) @ ''%'' @ nl
     @ ''Description: '' @ description a @ nl
     @ (if amount_involved a > 0
        then ''Amount Involved: $'' @ fmt_fixed True 2 (amount_involved a) @ nl else [])
     @ ''Evidence:'' @ nl
     @ concat (map (\<lambda>e. ''  '' @ bullet @ '' '' @ e @ nl) (evidence a))
     @ nl"

definition report_section :: "(RiskLevel \<rightharpoonup> Alert list) \<Rightarrow> RiskLevel \<Rightarrow> string" where
  "report_section groups level =
     (case groups level of
        None \<Rightarrow> []
      | Some found \<Rightarrow>
          nl @ risk_name level @ '' RISK ALERTS ('' @ str_nat (length found) @ '')'' @ nl
          @ replicate 30 (CHR ''-'') @ nl
          @ concat (map report_alert found))"

text \<open>\<^verbatim>\<open>generate_report\<close> reads the clock itself, once, for the header.\<close>

definition generate_report :: "Env \<Rightarrow> Alert list \<Rightarrow> string \<Rightarrow> State \<Rightarrow> string \<times> State" where
  "generate_report env alerts account s =
     (let report = report_header (clock env (ticks s)) (length alerts) account;
          s1 = tick s
      in if alerts = [] then (report @ ''No suspicious patterns detected.'' @ nl, s1)
         else
           (report
            @ concat (map (report_section (group_by_risk alerts Map.empty))
                        [CRITICAL, HIGH, MEDIUM, LOW]),
            s1))"

section \<open>Example inputs\<close>

text \<open>A clock that advances by one second per reading; no text parses as a date.\<close>

definition env0 :: Env where
  "env0 = \<lparr>clock = (\<lambda>k. \<lparr>year = 2024, month = 1, day = 1, hour = 0, minute = 0, second = k,
                            microsecond = 0\<rparr>),
           parse_date = (\<lambda>x. None),
           set_iteration = (\<lambda>xs. xs)\<rparr>"

text \<open>A table with nothing but an amount column.\<close>

definition amounts_only :: "rat list \<Rightarrow> State" where
  "amounts_only amts =
     \<lparr>frame = \<lparr>n_rows = length amts, amount_col = Some amts, date_col = None,
                description_col = None, counterparty_col = None,
                transaction_type_col = None, day_of_month_col = None, month_col = None\<rparr>,
      ticks = 0\<rparr>"

definition amounts_13_of_20 :: "rat list" where
  "amounts_13_of_20 =
     [100, 200, 300, 400, 500, 600, 700, 800, 900, 1000, 1100, 1200, 1300,
      7, 13, 21, 33, 41, 57, 63]"

definition amounts_near_10000 :: "rat list" where
  "amounts_near_10000 = [9100, 50, 9300, 9500, 12000, 9700]"

definition descriptions_only :: "string option list \<Rightarrow> State" where
  "descriptions_only descs =
     \<lparr>frame = \<lparr>n_rows = length descs, amount_col = None, date_col = None,
                description_col = Some descs, counterparty_col = None,
                transaction_type_col = None, day_of_month_col = None, month_col = None\<rparr>,
      ticks = 0\<rparr>"

definition no_columns :: "nat \<Rightarrow> State" where
  "no_columns n =
     \<lparr>frame = \<lparr>n_rows = n, amount_col = None, date_col = None,
                description_col = None, counterparty_col = None,
                transaction_type_col = None, day_of_month_col = None, month_col = None\<rparr>,
      ticks = 0\<rparr>"

definition six_rents :: "string option list" where
  "six_rents = replicate 6 (Some ''rent'')"

text \<open>A detector run that ended without an exception.\<close>

definition returns :: "(error + Alert list) \<times> State \<Rightarrow> bool" where
  "returns r = (case fst r of Inl e \<Rightarrow> False | Inr alerts \<Rightarrow> True)"

text \<open>An empty table (0 rows) that has the amount column.\<close>

definition empty_table :: "State \<Rightarrow> bool" where
  "empty_table s \<longleftrightarrow> n_rows (frame s) = 0 \<and> wf_frame (frame s) \<and> amount_col (frame s) = Some []"

text \<open>Two days, each with a deposit and a withdrawal, the types capitalized or not.\<close>

definition jan :: "nat \<Rightarrow> datetime" where
  "jan d = \<lparr>year = 2024, month = 1, day = d, hour = 12, minute = 0, second = 0, microsecond = 0\<rparr>"

definition capitalized_types :: State where
  "capitalized_types =
     \<lparr>frame = \<lparr>n_rows = 4, amount_col = Some [500, 400, 300, 200],
                date_col = Some [Stamp (jan 5), Stamp (jan 5), Stamp (jan 6), Stamp (jan 6)],
                description_col = None, counterparty_col = None,
                transaction_type_col =
                  Some [Some ''Deposit'', Some ''Withdrawal'', Some ''Deposit'', Some ''Withdrawal''],
                day_of_month_col = None, month_col = None\<rparr>,
      ticks = 0\<rparr>"

definition lowercase_types :: State where
  "lowercase_types =
     capitalized_types\<lparr>frame := (frame capitalized_types)\<lparr>transaction_type_col :=
        Some [Some ''deposit'', Some ''withdrawal'', Some ''deposit'', Some ''withdrawal'']\<rparr>\<rparr>"

text \<open>A clock that stands still, and an alert to report.\<close>

definition frozen_env :: Env where
  "frozen_env = env0\<lparr>clock := (\<lambda>k. jan 1)\<rparr>"

definition sample_alert :: Alert where
  "sample_alert =
     \<lparr>account_id = ''ACC-1'', alert_type = ''Threshold Avoidance'', risk_level = HIGH,
      confidence_score = 80, description = ''Multiple transactions'',
      evidence = [''4 transactions''], timestamp = jan 1, amount_involved = 37600\<rparr>"

text \<open>
  Two tables hold the same data for the detectors: the same number of rows, the same
  amount, description, counterparty and transaction_type columns, and date columns that
  parse alike.
\<close>

definition same_data :: "Env \<Rightarrow> DataFrame \<Rightarrow> DataFrame \<Rightarrow> bool" where
  "same_data env df df' \<longleftrightarrow>
     n_rows df = n_rows df' \<and> amount_col df = amount_col df'
     \<and> description_col df = description_col df' \<and> counterparty_col df = counterparty_col df'
     \<and> transaction_type_col df = transaction_type_col df'
     \<and> map_option (to_datetime env) (date_col df) = map_option (to_datetime env) (date_col df')"

text \<open>The eight detectors, in the order \<^verbatim>\<open>analyze_account\<close> calls them.\<close>

definition detectors :: "Env \<Rightarrow> string \<Rightarrow> (State \<Rightarrow> (error + Alert list) \<times> State) list" where
  "detectors env account =
     [detect_round_number_patterns env account, detect_suspicious_descriptions env account,
      detect_unusual_frequency_patterns env account, detect_threshold_avoidance env account,
      detect_end_of_period_activities env account, detect_unusual_counterparties env account,
      detect_cash_intensive_patterns env account, detect_layering_patterns env account]"

section \<open>Properties of the Prioritizer\<close>

lemma risk_value_inject: "risk_value r = risk_value r' \<longleftrightarrow> r = r'"
  by (cases r; cases r') simp_all

lemma alert_key_le: "alert_key b \<le> alert_key a \<longleftrightarrow> ranks_above a b \<or> same_rank a b"
  by (auto simp: alert_key_def ranks_above_def same_rank_def less_eq_prod_def risk_value_inject)

lemma alert_key_eq: "alert_key a = alert_key b \<longleftrightarrow> same_rank a b"
  by (auto simp: alert_key_def same_rank_def risk_value_inject)

lemma sorted_desc_rev_sort_key:
  "sorted_wrt (\<lambda>a b. f b \<le> f a) (rev (sort_key f xs))"
proof -
  have "sorted (map f (sort_key f xs))" by simp
  then have "sorted_wrt (\<lambda>a b. f a \<le> f b) (sort_key f xs)"
    by (simp add: sorted_map)
  then show ?thesis
    by (simp add: sorted_wrt_rev)
qed

lemma filter_rev_sort_key_rev:
  "filter (\<lambda>y. f y = k) (rev (sort_key f (rev xs))) = filter (\<lambda>y. f y = k) xs"
proof -
  have "filter (\<lambda>y. f y = k) (sort_key f (rev xs)) = filter (\<lambda>y. f y = k) (rev xs)"
    by (rule sort_key_stable)
  then show ?thesis
    by (simp add: rev_filter [symmetric])
qed

text \<open>
  C1. The Prioritizer returns a permutation of its input, in descending order of risk
  rank (LOW=1, MEDIUM=2, HIGH=3, CRITICAL=4) and then of confidence score, and it is
  stable: the alerts of any one (risk level, confidence) class appear in the output in
  their input order. For an input of the shape [MEDIUM/70, HIGH/60, HIGH/60, LOW/90] the
  output is [HIGH/60, HIGH/60, MEDIUM/70, LOW/90], the two HIGH/60 alerts in their
  original order.
\<close>

theorem prioritize_alerts_stable_descending:
  "mset (prioritize_alerts alerts) = mset alerts
   \<and> sorted_wrt (\<lambda>a b. ranks_above a b \<or> same_rank a b) (prioritize_alerts alerts)
   \<and> risk_value LOW = 1 \<and> risk_value MEDIUM = 2 \<and> risk_value HIGH = 3
   \<and> risk_value CRITICAL = 4
   \<and> (\<forall>c. filter (same_rank c) (prioritize_alerts alerts) = filter (same_rank c) alerts)
   \<and> prioritize_alerts
        [a\<lparr>risk_level := MEDIUM, confidence_score := 70\<rparr>,
         b\<lparr>risk_level := HIGH, confidence_score := 60\<rparr>,
         c\<lparr>risk_level := HIGH, confidence_score := 60\<rparr>,
         d\<lparr>risk_level := LOW, confidence_score := 90\<rparr>]
       = [b\<lparr>risk_level := HIGH, confidence_score := 60\<rparr>,
          c\<lparr>risk_level := HIGH, confidence_score := 60\<rparr>,
          a\<lparr>risk_level := MEDIUM, confidence_score := 70\<rparr>,
          d\<lparr>risk_level := LOW, confidence_score := 90\<rparr>]"
proof -
  have perm: "mset (prioritize_alerts alerts) = mset alerts"
    by (simp add: prioritize_alerts_def)
  have "sorted_wrt (\<lambda>a b. alert_key b \<le> alert_key a) (prioritize_alerts alerts)"
    unfolding prioritize_alerts_def by (rule sorted_desc_rev_sort_key)
  then have desc:
    "sorted_wrt (\<lambda>a b. ranks_above a b \<or> same_rank a b) (prioritize_alerts alerts)"
    by (simp add: alert_key_le)
  have stable:
    "filter (same_rank c) (prioritize_alerts alerts) = filter (same_rank c) alerts" for c
  proof -
    have "same_rank c = (\<lambda>y. alert_key y = alert_key c)"
      by (auto simp: fun_eq_iff alert_key_eq same_rank_def)
    then show ?thesis
      by (simp add: prioritize_alerts_def filter_rev_sort_key_rev)
  qed
  have ex: "prioritize_alerts
        [a\<lparr>risk_level := MEDIUM, confidence_score := 70\<rparr>,
         b\<lparr>risk_level := HIGH, confidence_score := 60\<rparr>,
         c\<lparr>risk_level := HIGH, confidence_score := 60\<rparr>,
         d\<lparr>risk_level := LOW, confidence_score := 90\<rparr>]
       = [b\<lparr>risk_level := HIGH, confidence_score := 60\<rparr>,
          c\<lparr>risk_level := HIGH, confidence_score := 60\<rparr>,
          a\<lparr>risk_level := MEDIUM, confidence_score := 70\<rparr>,
          d\<lparr>risk_level := LOW, confidence_score := 90\<rparr>]"
    by (simp add: prioritize_alerts_def alert_key_def less_eq_prod_def)
  from perm desc stable ex show ?thesis by simp
qed

section \<open>Properties of the detectors\<close>

lemma mask_rows_map: "mask_rows (map P xs) xs = filter P xs"
  by (induction xs) (simp_all add: mask_rows_def)

lemma mask_count_map: "mask_count (map P xs) = length (filter P xs)"
  by (induction xs) (simp_all add: mask_count_def)

lemma floor_numeral_quotient:
  "\<lfloor>numeral a / numeral b :: rat\<rfloor> = numeral a div numeral b"
  using floor_divide_of_int_eq [of "numeral a" "numeral b", where ?'a = rat] by simp

lemma py_mod_zero_iff:
  assumes "m \<noteq> 0"
  shows "py_mod x m = 0 \<longleftrightarrow> (\<exists>k::int. x = of_int k * m)"
proof
  assume "py_mod x m = 0"
  then have "x = of_int \<lfloor>x / m\<rfloor> * m" by (simp add: py_mod_def mult.commute)
  then show "\<exists>k::int. x = of_int k * m" ..
next
  assume "\<exists>k::int. x = of_int k * m"
  then obtain k :: int where k: "x = of_int k * m" ..
  with assms have "x / m = of_int k" by simp
  then have "\<lfloor>x / m\<rfloor> = k" by simp
  with k show "py_mod x m = 0" by (simp add: py_mod_def mult.commute)
qed

lemma is_round_iff:
  "is_round x \<longleftrightarrow> (\<exists>k::int. x = of_int k * 50) \<or> (\<exists>k::int. x = of_int k * 100)"
  by (auto simp: is_round_def py_mod_zero_iff)

subsection \<open>Round numbers\<close>

text \<open>
  C7. On a table with an amount column, the Round-Number Detector returns without error.
  A transaction is round iff its amount is an integer multiple of 50 or of 100. With
  round_fraction = round_count / total_count, it emits exactly one alert if there are more
  than 10 transactions and round_fraction > 0.6, and no alert otherwise; the alert has
  risk MEDIUM if round_fraction < 0.8 and HIGH otherwise, confidence
  min (round_fraction * 100, 95) and amount_involved the sum of the round amounts. With
  20 transactions of which 13 are round it emits one alert, MEDIUM, confidence 65.
\<close>

theorem round_number_detector:
  assumes "amount_col (frame s) = Some amts" and "length amts = n_rows (frame s)"
  shows "\<exists>alerts. fst (detect_round_number_patterns env account s) = Inr alerts \<and>
    (let round_count = length (filter is_round amts);
         total_count = length amts;
         round_fraction = (of_nat round_count / of_nat total_count :: rat)
     in (\<forall>x. is_round x \<longleftrightarrow> (\<exists>k::int. x = of_int k * 50) \<or> (\<exists>k::int. x = of_int k * 100))
        \<and> (if total_count > 10 \<and> round_fraction > 6 / 10
            then \<exists>a. alerts = [a] \<and> account_id a = account
                   \<and> risk_level a = (if round_fraction < 8 / 10 then MEDIUM else HIGH)
                   \<and> confidence_score a = min (round_fraction * 100) 95
                   \<and> amount_involved a = sum_list (filter is_round amts)
            else alerts = [])
        \<and> (total_count = 20 \<and> round_count = 13 \<longrightarrow>
             (\<exists>a. alerts = [a] \<and> risk_level a = MEDIUM \<and> confidence_score a = 65)))"
proof -
  have "\<forall>x. is_round x \<longleftrightarrow> (\<exists>k::int. x = of_int k * 50) \<or> (\<exists>k::int. x = of_int k * 100)"
    by (simp add: is_round_iff)
  with assms show ?thesis
    by (auto simp: detect_round_number_patterns_def py_truediv_def mask_rows_map mask_count_map
          Let_def simp del: of_int_mult)
qed

text \<open>
  The spec's example: 13 multiples of 100 and 7 amounts that are not round.
\<close>

theorem round_number_detector_witness:
  "\<exists>a. fst (detect_round_number_patterns env0 ''ACC-1'' (amounts_only amounts_13_of_20)) = Inr [a]
       \<and> risk_level a = MEDIUM \<and> confidence_score a = 65 \<and> amount_involved a = 9100"
proof -
  have h1: "amount_col (frame (amounts_only amounts_13_of_20)) = Some amounts_13_of_20"
    by (simp add: amounts_only_def)
  have h2: "length amounts_13_of_20 = n_rows (frame (amounts_only amounts_13_of_20))"
    by (simp add: amounts_only_def)
  have f: "filter is_round amounts_13_of_20 =
      [100, 200, 300, 400, 500, 600, 700, 800, 900, 1000, 1100, 1200, 1300]"
    by (simp add: amounts_13_of_20_def is_round_def py_mod_def floor_numeral_quotient)
  have n: "length amounts_13_of_20 = 20"
    by (simp add: amounts_13_of_20_def)
  from round_number_detector [OF h1 h2, of env0 "''ACC-1''"] show ?thesis
    unfolding Let_def f n by auto
qed

subsection \<open>Threshold avoidance\<close>

lemma ticks_tick [simp]: "ticks (tick s) = Suc (ticks s)" "frame (tick s) = frame s"
  by (simp_all add: tick_def)

lemma threshold_loop_spec:
  assumes "amount_col (frame s) = Some amts"
  shows "\<exists>found s'. threshold_loop env account ts alerts s = (Inr (alerts @ found), s')
           \<and> frame s' = frame s
           \<and> map (\<lambda>a. (risk_level a, confidence_score a, amount_involved a)) found =
               concat (map (\<lambda>t. let band = filter (near_threshold t) amts
                                in if length band > 3
                                   then [(if t \<ge> 10000 then HIGH else MEDIUM, 80, sum_list band)]
                                   else []) ts)"
  using assms
proof (induction ts arbitrary: alerts s)
  case Nil
  then show ?case by simp
next
  case (Cons t ts)
  show ?case
  proof (cases "length (filter (near_threshold t) amts) > 3")
    case True
    from Cons.prems have "amount_col (frame (tick s)) = Some amts" by simp
    from Cons.IH [OF this, of "alerts @ [threshold_alert env account t (filter (near_threshold t) amts) (ticks s)]"]
    obtain found s' where
      "threshold_loop env account ts
          (alerts @ [threshold_alert env account t (filter (near_threshold t) amts) (ticks s)]) (tick s)
        = (Inr ((alerts @ [threshold_alert env account t (filter (near_threshold t) amts) (ticks s)]) @ found), s')"
      "frame s' = frame (tick s)"
      "map (\<lambda>a. (risk_level a, confidence_score a, amount_involved a)) found =
               concat (map (\<lambda>t. let band = filter (near_threshold t) amts
                                in if length band > 3
                                   then [(if t \<ge> 10000 then HIGH else MEDIUM, 80, sum_list band)]
                                   else []) ts)"
      by blast
    with True Cons.prems show ?thesis
      by (intro exI [of _ "threshold_alert env account t (filter (near_threshold t) amts) (ticks s) # found"] exI [of _ s'])
         (simp add: mask_rows_map threshold_alert_def Let_def)
  next
    case False
    from Cons.IH [OF Cons.prems, of alerts]
    obtain found s' where
      "threshold_loop env account ts alerts s = (Inr (alerts @ found), s')"
      "frame s' = frame s"
      "map (\<lambda>a. (risk_level a, confidence_score a, amount_involved a)) found =
               concat (map (\<lambda>t. let band = filter (near_threshold t) amts
                                in if length band > 3
                                   then [(if t \<ge> 10000 then HIGH else MEDIUM, 80, sum_list band)]
                                   else []) ts)"
      by blast
    with False Cons.prems show ?thesis
      by (intro exI [of _ found] exI [of _ s']) (simp add: mask_rows_map Let_def)
  qed
qed


text \<open>
  C8. On a table with an amount column, the Threshold-Avoidance Detector returns without
  error. For each threshold t of 10000, 5000, 3000, 1000, in this order and each on its
  own, it emits one alert iff more than 3 amounts lie in [0.9 * t, t); the alert has risk
  HIGH if t >= 10000 and MEDIUM otherwise, confidence 80 and amount_involved the sum of
  the amounts in the band. When the amounts in [9000, 10000) are 9100, 9300, 9500, 9700
  and no amount lies in another band, it emits exactly one alert: HIGH, confidence 80,
  amount_involved 37600.
\<close>

theorem threshold_avoidance_detector:
  assumes "amount_col (frame s) = Some amts"
  shows "\<exists>alerts. fst (detect_threshold_avoidance env account s) = Inr alerts \<and>
    (let band = (\<lambda>t. filter (\<lambda>x. of_nat t * (9 / 10) \<le> x \<and> x < of_nat t) amts);
         summary = map (\<lambda>a. (risk_level a, confidence_score a, amount_involved a)) alerts
     in summary =
          concat (map (\<lambda>t. if length (band t) > 3
                            then [(if t \<ge> 10000 then HIGH else MEDIUM, 80, sum_list (band t))]
                            else [])
                    [10000, 5000, 3000, 1000])
        \<and> (mset (band 10000) = {#9100, 9300, 9500, 9700#}
             \<and> band 5000 = [] \<and> band 3000 = [] \<and> band 1000 = []
           \<longrightarrow> summary = [(HIGH, 80, 37600)]))"
proof -
  have nt: "near_threshold t = (\<lambda>x. of_nat t * (9 / 10) \<le> x \<and> x < of_nat t)" for t
    by (simp add: near_threshold_def fun_eq_iff)
  from threshold_loop_spec [OF assms, of env account thresholds "[]"]
  obtain found s' where r: "threshold_loop env account thresholds [] s = (Inr found, s')"
    and m: "map (\<lambda>a. (risk_level a, confidence_score a, amount_involved a)) found =
               concat (map (\<lambda>t. let band = filter (near_threshold t) amts
                                in if length band > 3
                                   then [(if t \<ge> 10000 then HIGH else MEDIUM, 80, sum_list band)]
                                   else []) thresholds)"
    by auto
  have ex: "length xs = 4 \<and> sum_list xs = 37600"
    if "mset xs = {#9100, 9300, 9500, 9700 :: rat#}" for xs
  proof -
    from that have "size (mset xs) = 4" "sum_mset (mset xs) = 37600" by simp_all
    then show ?thesis by (simp add: sum_mset_sum_list)
  qed
  from r have "fst (detect_threshold_avoidance env account s) = Inr found"
    by (simp add: detect_threshold_avoidance_def)
  moreover from m have "map (\<lambda>a. (risk_level a, confidence_score a, amount_involved a)) found =
      concat (map (\<lambda>t. if length (filter (\<lambda>x. of_nat t * (9 / 10) \<le> x \<and> x < of_nat t) amts) > 3
                        then [(if t \<ge> 10000 then HIGH else MEDIUM, 80,
                               sum_list (filter (\<lambda>x. of_nat t * (9 / 10) \<le> x \<and> x < of_nat t) amts))]
                        else [])
                [10000, 5000, 3000, 1000])"
    by (simp add: thresholds_def nt Let_def)
  ultimately show ?thesis
    using ex [of "filter (\<lambda>x. of_nat 10000 * (9 / 10) \<le> x \<and> x < of_nat 10000) amts"]
    unfolding Let_def by (intro exI [of _ found]) auto
qed

theorem threshold_avoidance_detector_witness:
  "\<exists>a. fst (detect_threshold_avoidance env0 ''ACC-1'' (amounts_only amounts_near_10000)) = Inr [a]
     \<and> risk_level a = HIGH \<and> confidence_score a = 80 \<and> amount_involved a = 37600"
proof -
  have h: "amount_col (frame (amounts_only amounts_near_10000)) = Some amounts_near_10000"
    by (simp add: amounts_only_def)
  from threshold_avoidance_detector [OF h, of env0 "''ACC-1''"] show ?thesis
    unfolding Let_def by (auto simp: amounts_near_10000_def)
qed

section \<open>Properties of the Orchestrator\<close>

text \<open>
  C2, as the code has it. \<^verbatim>\<open>analyze_account\<close> does not isolate its detectors: it
  raises an error iff some detector raises it after all the detectors before it have
  returned, and no diagnostic or alert is produced then. It returns alerts only when all
  eight detectors return, and these are the prioritized concatenation of their alerts in
  the order round-number, description, frequency, threshold-avoidance, end-of-period,
  counterparty, cash-intensity, layering.
\<close>

theorem analyze_account_propagates:
  "(let account = (case info ''account_id'' of None \<Rightarrow> ''unknown'' | Some a \<Rightarrow> a);
        r1 = detect_round_number_patterns env account s;
        r2 = detect_suspicious_descriptions env account (snd r1);
        r3 = detect_unusual_frequency_patterns env account (snd r2);
        r4 = detect_threshold_avoidance env account (snd r3);
        r5 = detect_end_of_period_activities env account (snd r4);
        r6 = detect_unusual_counterparties env account (snd r5);
        r7 = detect_cash_intensive_patterns env account (snd r6);
        r8 = detect_layering_patterns env account (snd r7)
    in (fst (analyze_account env info s) = Inl e \<longleftrightarrow>
          fst r1 = Inl e \<or> returns r1 \<and>
          (fst r2 = Inl e \<or> returns r2 \<and>
          (fst r3 = Inl e \<or> returns r3 \<and>
          (fst r4 = Inl e \<or> returns r4 \<and>
          (fst r5 = Inl e \<or> returns r5 \<and>
          (fst r6 = Inl e \<or> returns r6 \<and>
          (fst r7 = Inl e \<or> returns r7 \<and> fst r8 = Inl e)))))))
     \<and> (fst (analyze_account env info s) = Inr out \<longleftrightarrow>
          (\<exists>a1 a2 a3 a4 a5 a6 a7 a8.
             fst r1 = Inr a1 \<and> fst r2 = Inr a2 \<and> fst r3 = Inr a3 \<and> fst r4 = Inr a4
           \<and> fst r5 = Inr a5 \<and> fst r6 = Inr a6 \<and> fst r7 = Inr a7 \<and> fst r8 = Inr a8
           \<and> out = prioritize_alerts (a1 @ a2 @ a3 @ a4 @ a5 @ a6 @ a7 @ a8))))"
  unfolding analyze_account_def extend_with_def Let_def returns_def
  by (auto split: prod.splits sum.splits)

lemma rents: "value_counts six_rents = [(''rent'', 6)]"
  by (simp add: value_counts_def six_rents_def List.map_filter_def distinct_first_def sort_desc_def
      numeral_eq_Suc)

lemma rents_not_vague: "is_vague (Some ''rent'') = False"
  by (simp add: is_vague_def contains_any_def suspicious_keywords_def lower_def lower_char_def
      starts_with_def)

text \<open>
  A table with a description column (six rows reading ``rent'') and no amount column: the
  Round-Number Detector raises \<^verbatim>\<open>KeyError('amount')\<close>, the Description Detector on its
  own returns one alert, and \<^verbatim>\<open>analyze_account\<close> raises the KeyError and returns no
  alerts.
\<close>

theorem analyze_account_aborts:
  "fst (detect_round_number_patterns env0 ''unknown'' (descriptions_only six_rents))
     = Inl (KeyError ''amount'')
   \<and> (\<exists>a. fst (detect_suspicious_descriptions env0 ''unknown'' (descriptions_only six_rents))
            = Inr [a])
   \<and> fst (analyze_account env0 Map.empty (descriptions_only six_rents))
     = Inl (KeyError ''amount'')"
proof -
  have 1: "fst (detect_round_number_patterns env0 ''unknown'' (descriptions_only six_rents))
     = Inl (KeyError ''amount'')"
    by (simp add: detect_round_number_patterns_def descriptions_only_def)
  have m: "map is_vague six_rents = replicate 6 False"
    by (simp add: six_rents_def rents_not_vague)
  have 2: "\<exists>a. fst (detect_suspicious_descriptions env0 ''unknown'' (descriptions_only six_rents))
            = Inr [a]"
    by (simp add: detect_suspicious_descriptions_def descriptions_only_def rents m Let_def
        mask_count_def)
  have r: "detect_round_number_patterns env0 ''unknown'' (descriptions_only six_rents)
      = (Inl (KeyError ''amount''), descriptions_only six_rents)"
    by (simp add: detect_round_number_patterns_def descriptions_only_def)
  have 3: "fst (analyze_account env0 Map.empty (descriptions_only six_rents))
     = Inl (KeyError ''amount'')"
    by (simp add: analyze_account_def extend_with_def Let_def r)
  from 1 2 3 show ?thesis by simp
qed

section \<open>Absent columns\<close>

text \<open>
  C3, as the code has it. Six detectors guard one column each and return no alerts,
  without error and without touching the table, when it is absent: description
  (Description Detector), date (Frequency and End-of-Period Detectors), counterparty
  (Counterparty Detector), transaction_type (Cash-Intensity Detector), date or
  transaction_type (Layering Detector). The amount column is guarded nowhere: on a table
  without it the Round-Number and Threshold-Avoidance Detectors raise
  \<^verbatim>\<open>KeyError('amount')\<close>.
\<close>

theorem missing_column_guards:
  "(description_col (frame s) = None \<longrightarrow>
      detect_suspicious_descriptions env account s = (Inr [], s))
   \<and> (date_col (frame s) = None \<longrightarrow>
      detect_unusual_frequency_patterns env account s = (Inr [], s)
      \<and> detect_end_of_period_activities env account s = (Inr [], s))
   \<and> (counterparty_col (frame s) = None \<longrightarrow>
      detect_unusual_counterparties env account s = (Inr [], s))
   \<and> (transaction_type_col (frame s) = None \<longrightarrow>
      detect_cash_intensive_patterns env account s = (Inr [], s))
   \<and> (date_col (frame s) = None \<or> transaction_type_col (frame s) = None \<longrightarrow>
      detect_layering_patterns env account s = (Inr [], s))
   \<and> (amount_col (frame s) = None \<longrightarrow>
      detect_round_number_patterns env account s = (Inl (KeyError ''amount''), s)
      \<and> detect_threshold_avoidance env account s = (Inl (KeyError ''amount''), s))"
  by (auto simp: detect_suspicious_descriptions_def detect_unusual_frequency_patterns_def
      detect_end_of_period_activities_def detect_unusual_counterparties_def
      detect_cash_intensive_patterns_def detect_layering_patterns_def
      detect_round_number_patterns_def detect_threshold_avoidance_def thresholds_def
      split: option.splits)

theorem missing_column_guards_witness:
  "detect_suspicious_descriptions env0 ''ACC-1'' (no_columns 3) = (Inr [], no_columns 3)
   \<and> detect_unusual_frequency_patterns env0 ''ACC-1'' (no_columns 3) = (Inr [], no_columns 3)
   \<and> detect_end_of_period_activities env0 ''ACC-1'' (no_columns 3) = (Inr [], no_columns 3)
   \<and> detect_unusual_counterparties env0 ''ACC-1'' (no_columns 3) = (Inr [], no_columns 3)
   \<and> detect_cash_intensive_patterns env0 ''ACC-1'' (no_columns 3) = (Inr [], no_columns 3)
   \<and> detect_layering_patterns env0 ''ACC-1'' (no_columns 3) = (Inr [], no_columns 3)
   \<and> detect_round_number_patterns env0 ''ACC-1'' (no_columns 3)
       = (Inl (KeyError ''amount''), no_columns 3)
   \<and> detect_threshold_avoidance env0 ''ACC-1'' (no_columns 3)
       = (Inl (KeyError ''amount''), no_columns 3)"
  using missing_column_guards [of "no_columns 3" env0 "''ACC-1''"]
  by (simp add: no_columns_def)

text \<open>
  A table with a description column only: both detectors that read the amount column
  first raise instead of returning an empty list.
\<close>

theorem amount_column_unguarded:
  "fst (detect_round_number_patterns env0 ''ACC-1'' (descriptions_only six_rents))
     = Inl (KeyError ''amount'')
   \<and> fst (detect_threshold_avoidance env0 ''ACC-1'' (descriptions_only six_rents))
     = Inl (KeyError ''amount'')
   \<and> amount_col (frame (descriptions_only six_rents)) = None"
  by (simp add: detect_round_number_patterns_def detect_threshold_avoidance_def thresholds_def
      descriptions_only_def)

section \<open>The empty table\<close>

lemma empty_tableD:
  assumes "empty_table s"
  shows "n_rows (frame s) = 0" "amount_col (frame s) = Some []"
    "date_col (frame s) = None \<or> date_col (frame s) = Some []"
    "description_col (frame s) = None \<or> description_col (frame s) = Some []"
    "counterparty_col (frame s) = None \<or> counterparty_col (frame s) = Some []"
    "transaction_type_col (frame s) = None \<or> transaction_type_col (frame s) = Some []"
  using assms by (auto simp: empty_table_def wf_frame_def col_ok_def split: option.splits)

lemma empty_round:
  "empty_table s \<Longrightarrow> detect_round_number_patterns env account s = (Inr [], s)"
  by (simp add: detect_round_number_patterns_def empty_table_def)

lemma value_counts_Nil: "value_counts [] = []"
  by (simp add: value_counts_def List.map_filter_def distinct_first_def sort_desc_def)

lemma empty_descriptions:
  "empty_table s \<Longrightarrow> detect_suspicious_descriptions env account s = (Inr [], s)"
  using empty_tableD(1,4) [of s]
  by (auto simp: detect_suspicious_descriptions_def mask_count_def value_counts_Nil)


lemma col_ok_simps [simp]: "col_ok n None" "col_ok n (Some cells) \<longleftrightarrow> length cells = n"
  by (simp_all add: col_ok_def)

lemma empty_threshold:
  "empty_table s \<Longrightarrow> detect_threshold_avoidance env account s = (Inr [], s)"
  by (simp add: detect_threshold_avoidance_def thresholds_def empty_table_def mask_rows_def)

lemma empty_frequency:
  assumes "empty_table s"
  shows "\<exists>s'. detect_unusual_frequency_patterns env account s = (Inr [], s') \<and> empty_table s'"
proof (cases "date_col (frame s)")
  case None
  with assms show ?thesis
    by (simp add: detect_unusual_frequency_patterns_def)
next
  case (Some cells)
  with empty_tableD(3) [OF assms] have cells: "date_col (frame s) = Some []" by simp
  have "detect_unusual_frequency_patterns env account s
      = (Inr [], s\<lparr>frame := (frame s)\<lparr>date_col := Some []\<rparr>\<rparr>)"
    using empty_tableD(1) [OF assms]
    by (simp add: detect_unusual_frequency_patterns_def cells mask_count_def Let_def)
  moreover have "empty_table (s\<lparr>frame := (frame s)\<lparr>date_col := Some []\<rparr>\<rparr>)"
    using assms by (auto simp: empty_table_def wf_frame_def)
  ultimately show ?thesis by blast
qed

lemma empty_end_of_period:
  assumes "empty_table s"
  shows "\<exists>s'. detect_end_of_period_activities env account s = (Inr [], s') \<and> empty_table s'"
proof (cases "date_col (frame s)")
  case None
  with assms show ?thesis
    by (simp add: detect_end_of_period_activities_def)
next
  case (Some cells)
  with empty_tableD(3) [OF assms] have cells: "date_col (frame s) = Some []" by simp
  have "detect_end_of_period_activities env account s
      = (Inr [], s\<lparr>frame := (frame s)\<lparr>date_col := Some [], day_of_month_col := Some [],
                                        month_col := Some []\<rparr>\<rparr>)"
    using empty_tableD(1) [OF assms]
    by (simp add: detect_end_of_period_activities_def cells mask_count_def Let_def)
  moreover have "empty_table (s\<lparr>frame := (frame s)\<lparr>date_col := Some [],
      day_of_month_col := Some [], month_col := Some []\<rparr>\<rparr>)"
    using assms by (auto simp: empty_table_def wf_frame_def)
  ultimately show ?thesis by blast
qed

lemma empty_counterparties:
  assumes "empty_table s"
  shows "detect_unusual_counterparties env account s = (Inr [], s)"
proof (cases "counterparty_col (frame s)")
  case None
  then show ?thesis by (simp add: detect_unusual_counterparties_def)
next
  case (Some parties)
  with empty_tableD(5) [OF assms] have "counterparty_col (frame s) = Some []" by simp
  with empty_tableD(2) [OF assms] show ?thesis
    by (simp add: detect_unusual_counterparties_def value_counts_Nil Let_def)
qed

lemma empty_cash:
  assumes "empty_table s"
  shows "detect_cash_intensive_patterns env account s = (Inr [], s)"
proof (cases "transaction_type_col (frame s)")
  case None
  then show ?thesis by (simp add: detect_cash_intensive_patterns_def)
next
  case (Some types)
  with empty_tableD(6) [OF assms] have "transaction_type_col (frame s) = Some []" by simp
  then show ?thesis
    by (simp add: detect_cash_intensive_patterns_def mask_count_def Let_def)
qed

lemma empty_layering:
  assumes "empty_table s"
  shows "\<exists>s'. detect_layering_patterns env account s = (Inr [], s') \<and> empty_table s'"
proof (cases "date_col (frame s) = None \<or> transaction_type_col (frame s) = None")
  case True
  with assms show ?thesis
    by (auto simp: detect_layering_patterns_def split: option.splits)
next
  case False
  with empty_tableD(3,6) [OF assms]
  have cells: "date_col (frame s) = Some []" "transaction_type_col (frame s) = Some []"
    by auto
  have "detect_layering_patterns env account s
      = (Inr [], s\<lparr>frame := (frame s)\<lparr>date_col := Some []\<rparr>\<rparr>)"
    using empty_tableD(2) [OF assms]
    by (simp add: detect_layering_patterns_def cells keyed_rows_def daily_columns_def
        List.map_filter_def Let_def)
  moreover have "empty_table (s\<lparr>frame := (frame s)\<lparr>date_col := Some []\<rparr>\<rparr>)"
    using assms by (auto simp: empty_table_def wf_frame_def)
  ultimately show ?thesis by blast
qed

lemma empty_analyze:
  assumes "empty_table s"
  shows "fst (analyze_account env info s) = Inr []"
proof -
  define account where "account = (case info ''account_id'' of None \<Rightarrow> ''unknown'' | Some a \<Rightarrow> a)"
  from assms have 1: "detect_round_number_patterns env account s = (Inr [], s)"
    and 2: "detect_suspicious_descriptions env account s = (Inr [], s)"
    by (simp_all add: empty_round empty_descriptions)
  from empty_frequency [OF assms] obtain s3 where
    3: "detect_unusual_frequency_patterns env account s = (Inr [], s3)" and e3: "empty_table s3"
    by blast
  from e3 have 4: "detect_threshold_avoidance env account s3 = (Inr [], s3)"
    by (rule empty_threshold)
  from empty_end_of_period [OF e3] obtain s5 where
    5: "detect_end_of_period_activities env account s3 = (Inr [], s5)" and e5: "empty_table s5"
    by blast
  from e5 have 6: "detect_unusual_counterparties env account s5 = (Inr [], s5)"
    and 7: "detect_cash_intensive_patterns env account s5 = (Inr [], s5)"
    by (simp_all add: empty_counterparties empty_cash)
  from empty_layering [OF e5] obtain s8 where
    8: "detect_layering_patterns env account s5 = (Inr [], s8)"
    by blast
  show ?thesis
    unfolding analyze_account_def Let_def account_def [symmetric]
    by (simp add: extend_with_def 1 2 3 4 5 6 7 8 prioritize_alerts_def)
qed


text \<open>
  C4, as the code has it. On an empty table (0 rows) that has the amount column, with any
  combination of the other columns, each of the eight detectors returns no alerts without
  error, \<^verbatim>\<open>analyze_account\<close> returns the empty list, and the Reporter renders the header
  and the line ``No suspicious patterns detected.''.
\<close>

theorem empty_dataset:
  assumes "n_rows (frame s) = 0" and "wf_frame (frame s)" and "amount_col (frame s) \<noteq> None"
  shows "fst (detect_round_number_patterns env account s) = Inr []
    \<and> fst (detect_suspicious_descriptions env account s) = Inr []
    \<and> fst (detect_unusual_frequency_patterns env account s) = Inr []
    \<and> fst (detect_threshold_avoidance env account s) = Inr []
    \<and> fst (detect_end_of_period_activities env account s) = Inr []
    \<and> fst (detect_unusual_counterparties env account s) = Inr []
    \<and> fst (detect_cash_intensive_patterns env account s) = Inr []
    \<and> fst (detect_layering_patterns env account s) = Inr []
    \<and> fst (analyze_account env info s) = Inr []
    \<and> fst (generate_report env [] account s') =
        ''SLUSH FUND DETECTION REPORT'' @ nl
        @ replicate 50 (CHR ''='') @ nl
        @ ''Account ID: '' @ account @ nl
        @ ''Analysis Date: '' @ strftime (clock env (ticks s')) @ nl
        @ ''Total Alerts: 0'' @ nl @ nl
        @ ''No suspicious patterns detected.'' @ nl"
proof -
  from assms have e: "empty_table s"
    by (auto simp: empty_table_def wf_frame_def)
  have zero: "str_nat 0 = ''0''"
    by (simp add: str_nat.simps digit_char_def char_of_def bit_Suc bit_0)
  have report: "fst (generate_report env [] account s') =
        ''SLUSH FUND DETECTION REPORT'' @ nl
        @ replicate 50 (CHR ''='') @ nl
        @ ''Account ID: '' @ account @ nl
        @ ''Analysis Date: '' @ strftime (clock env (ticks s')) @ nl
        @ ''Total Alerts: 0'' @ nl @ nl
        @ ''No suspicious patterns detected.'' @ nl"
    by (simp add: generate_report_def report_header_def zero Let_def)
  from empty_frequency [OF e, of env account] empty_end_of_period [OF e, of env account]
    empty_layering [OF e, of env account]
  have "fst (detect_unusual_frequency_patterns env account s) = Inr []"
    "fst (detect_end_of_period_activities env account s) = Inr []"
    "fst (detect_layering_patterns env account s) = Inr []"
    by auto
  with e report show ?thesis
    by (simp add: empty_round empty_descriptions empty_threshold empty_counterparties
        empty_cash empty_analyze)
qed

theorem empty_dataset_witness:
  "fst (detect_round_number_patterns env0 ''ACC-1'' (amounts_only [])) = Inr []
    \<and> fst (detect_suspicious_descriptions env0 ''ACC-1'' (amounts_only [])) = Inr []
    \<and> fst (detect_unusual_frequency_patterns env0 ''ACC-1'' (amounts_only [])) = Inr []
    \<and> fst (detect_threshold_avoidance env0 ''ACC-1'' (amounts_only [])) = Inr []
    \<and> fst (detect_end_of_period_activities env0 ''ACC-1'' (amounts_only [])) = Inr []
    \<and> fst (detect_unusual_counterparties env0 ''ACC-1'' (amounts_only [])) = Inr []
    \<and> fst (detect_cash_intensive_patterns env0 ''ACC-1'' (amounts_only [])) = Inr []
    \<and> fst (detect_layering_patterns env0 ''ACC-1'' (amounts_only [])) = Inr []
    \<and> fst (analyze_account env0 [''account_id'' \<mapsto> ''ACC-1''] (amounts_only [])) = Inr []
    \<and> fst (generate_report env0 [] ''ACC-1'' (amounts_only [])) =
        ''SLUSH FUND DETECTION REPORT'' @ nl
        @ replicate 50 (CHR ''='') @ nl
        @ ''Account ID: ACC-1'' @ nl
        @ ''Analysis Date: 2024-01-01 00:00:00'' @ nl
        @ ''Total Alerts: 0'' @ nl @ nl
        @ ''No suspicious patterns detected.'' @ nl"
proof -
  have h: "n_rows (frame (amounts_only [])) = 0" "wf_frame (frame (amounts_only []))"
    "amount_col (frame (amounts_only [])) \<noteq> None"
    by (simp_all add: amounts_only_def wf_frame_def)
  have t: "strftime (clock env0 (ticks (amounts_only []))) = ''2024-01-01 00:00:00''"
    by (simp add: env0_def amounts_only_def strftime_def zero_pad_def str_nat.simps
        digit_char_def char_of_def bit_Suc bit_0)
  from empty_dataset [OF h, of env0 "''ACC-1''" "[''account_id'' \<mapsto> ''ACC-1'']" "amounts_only []"]
  show ?thesis
    by (simp add: t)
qed

text \<open>
  The empty table with no column at all: the first detector raises
  \<^verbatim>\<open>KeyError('amount')\<close>, and so does \<^verbatim>\<open>analyze_account\<close>.
\<close>

theorem empty_dataset_without_amount:
  "n_rows (frame (no_columns 0)) = 0 \<and> wf_frame (frame (no_columns 0))
   \<and> fst (detect_round_number_patterns env0 ''unknown'' (no_columns 0))
       = Inl (KeyError ''amount'')
   \<and> fst (detect_threshold_avoidance env0 ''unknown'' (no_columns 0))
       = Inl (KeyError ''amount'')
   \<and> fst (analyze_account env0 Map.empty (no_columns 0)) = Inl (KeyError ''amount'')"
proof -
  have r: "detect_round_number_patterns env0 ''unknown'' (no_columns 0)
      = (Inl (KeyError ''amount''), no_columns 0)"
    by (simp add: detect_round_number_patterns_def no_columns_def)
  have "fst (analyze_account env0 Map.empty (no_columns 0)) = Inl (KeyError ''amount'')"
    by (simp add: analyze_account_def extend_with_def Let_def r)
  moreover have "fst (detect_threshold_avoidance env0 ''unknown'' (no_columns 0))
       = Inl (KeyError ''amount'')"
    by (simp add: detect_threshold_avoidance_def thresholds_def no_columns_def)
  moreover have "n_rows (frame (no_columns 0)) = 0 \<and> wf_frame (frame (no_columns 0))"
    by (simp add: no_columns_def wf_frame_def)
  ultimately show ?thesis using r by simp
qed

subsection \<open>Layering\<close>

lemma in_set_map_filter:
  "y \<in> set (List.map_filter f xs) \<longleftrightarrow> (\<exists>x\<in>set xs. f x = Some y)"
  by (induction xs) (auto split: option.splits)

lemma daily_columns_subset:
  assumes "x \<in> set (daily_columns (keyed_rows stamps types amts))"
  shows "Some x \<in> set types"
proof -
  from assms obtain d a where "(d, x, a) \<in> set (keyed_rows stamps types amts)"
    by (auto simp: daily_columns_def)
  then obtain t ty a' where "(t, ty, a') \<in> set (zip stamps (zip types amts))" and "ty = Some x"
    by (auto simp: keyed_rows_def in_set_map_filter split: option.splits)
  then have "(ty, a') \<in> set (zip types amts)" and "ty = Some x"
    by (auto dest: set_zip_rightD)
  then show ?thesis
    by (auto dest: set_zip_leftD)
qed

text \<open>
  C10. The Layering Detector looks for the table columns named exactly ``deposit'' and
  ``withdrawal'', so it compares transaction types by case-sensitive equality. When the
  transaction types do not include both of these exact strings, it emits no alert,
  however many days have both directions: it returns the empty list (or raises, when a
  date does not parse or the amount column is absent). The Cash-Intensity Detector
  instead matches ``cash'', ``atm'' and ``withdrawal'' as substrings of the lower-cased
  type.
\<close>

theorem layering_exact_match:
  assumes "\<not> (\<exists>types. transaction_type_col (frame s) = Some types
              \<and> Some ''deposit'' \<in> set types \<and> Some ''withdrawal'' \<in> set types)"
  shows "fst (detect_layering_patterns env account s) =
      (case (date_col (frame s), transaction_type_col (frame s)) of
         (Some cells, Some types) \<Rightarrow>
           (case to_datetime env cells of
              Inl e \<Rightarrow> Inl e
            | Inr stamps \<Rightarrow>
                (case amount_col (frame s) of
                   None \<Rightarrow> Inl (KeyError ''Column not found: amount'')
                 | Some amts \<Rightarrow> Inr []))
       | _ \<Rightarrow> Inr [])
    \<and> (\<forall>x. is_cash (Some x) \<longleftrightarrow>
          contains (lower x) ''cash'' \<or> contains (lower x) ''atm''
          \<or> contains (lower x) ''withdrawal'')"
  using assms daily_columns_subset
  by (auto simp: detect_layering_patterns_def Let_def is_cash_def contains_any_def
      split: option.splits sum.splits)

theorem layering_exact_match_witness:
  "fst (detect_layering_patterns env0 ''ACC-1'' capitalized_types) = Inr []
   \<and> is_cash (Some ''Withdrawal'')"
proof -
  have h: "\<not> (\<exists>types. transaction_type_col (frame capitalized_types) = Some types
              \<and> Some ''deposit'' \<in> set types \<and> Some ''withdrawal'' \<in> set types)"
    by (simp add: capitalized_types_def)
  have l: "contains (lower ''Withdrawal'') ''withdrawal''"
    by (simp add: lower_def lower_char_def char_of_def bit_Suc bit_0 starts_with_def)
  from layering_exact_match [OF h, of env0 "''ACC-1''"] l show ?thesis
    by (simp add: capitalized_types_def)
qed

text \<open>The same table with lower-case types does fire.\<close>

lemma layering_fires_on_lowercase:
  "\<exists>a. fst (detect_layering_patterns env0 ''ACC-1'' lowercase_types) = Inr [a]
     \<and> risk_level a = HIGH \<and> confidence_score a = 85"
  by (simp add: detect_layering_patterns_def lowercase_types_def capitalized_types_def
      keyed_rows_def daily_columns_def daily_index_def daily_cell_def date_of_def jan_def Let_def
      less_eq_prod_def less_prod_def)

section \<open>Properties of the Reporter\<close>

text \<open>
  C6. The Reporter is deterministic and idempotent. The generation time is the reading of
  the clock the model passes in. For every ordered alert list and account id,
  two calls of \<^verbatim>\<open>generate_report\<close> on the same inputs whose clock readings agree to the
  second return identical report strings; in particular, with a clock fixed at one
  timestamp, calling it twice in a row returns the same string twice.
\<close>

theorem generate_report_deterministic:
  "(strftime (clock env (ticks s)) = strftime (clock env' (ticks s')) \<longrightarrow>
      fst (generate_report env alerts account s) = fst (generate_report env' alerts account s'))
   \<and> ((\<forall>k. clock env k = now) \<longrightarrow>
      fst (generate_report env alerts account (snd (generate_report env alerts account s)))
        = fst (generate_report env alerts account s))"
  by (simp add: generate_report_def report_header_def Let_def tick_def)

theorem generate_report_deterministic_witness:
  "fst (generate_report frozen_env [sample_alert] ''ACC-1'' (amounts_only []))
   = fst (generate_report frozen_env [sample_alert] ''ACC-1''
       (snd (generate_report frozen_env [sample_alert] ''ACC-1'' (amounts_only []))))
   \<and> fst (generate_report frozen_env [sample_alert] ''ACC-1'' (amounts_only []))
   = fst (generate_report (frozen_env\<lparr>parse_date := Some \<circ> (\<lambda>x. jan 2)\<rparr>) [sample_alert]
       ''ACC-1'' (amounts_only [100]))"
proof -
  have fixed: "\<forall>k. clock frozen_env k = jan 1"
    by (simp add: frozen_env_def)
  have same: "strftime (clock frozen_env (ticks (amounts_only [])))
      = strftime (clock (frozen_env\<lparr>parse_date := Some \<circ> (\<lambda>x. jan 2)\<rparr>)
          (ticks (amounts_only [100])))"
    by (simp add: frozen_env_def)
  from generate_report_deterministic
    [of frozen_env "amounts_only []" "frozen_env\<lparr>parse_date := Some \<circ> (\<lambda>x. jan 2)\<rparr>"
      "amounts_only [100]" "[sample_alert]" "''ACC-1''" "jan 1"]
    fixed same
  show ?thesis by simp
qed

text \<open>
  The reading of the clock is part of the report: when the clock moves on by a second
  between two calls, the ``Analysis Date'' lines differ.
\<close>

lemma strftime_env0:
  "strftime (clock env0 0) = ''2024-01-01 00:00:00''"
  "strftime (clock env0 (Suc 0)) = ''2024-01-01 00:00:01''"
  by (simp_all add: env0_def strftime_def zero_pad_def str_nat.simps
        digit_char_def char_of_def bit_Suc bit_0)

lemma generate_report_prints_clock:
  "fst (generate_report env0 [] ''ACC-1'' (amounts_only []))
   \<noteq> fst (generate_report env0 [] ''ACC-1''
       (snd (generate_report env0 [] ''ACC-1'' (amounts_only []))))"
  by (simp add: generate_report_def report_header_def Let_def tick_def amounts_only_def
      strftime_env0 nl_def)

section \<open>Detectors and the shared table\<close>

lemma to_datetime_Stamp: "to_datetime env (map Stamp stamps) = Inr stamps"
  by (induction stamps) simp_all

lemma same_data_refl: "same_data env df df"
  by (simp add: same_data_def)

lemma same_dataD:
  assumes "same_data env (frame s) (frame s')"
  shows "n_rows (frame s) = n_rows (frame s')" "amount_col (frame s) = amount_col (frame s')"
    "description_col (frame s) = description_col (frame s')"
    "counterparty_col (frame s) = counterparty_col (frame s')"
    "transaction_type_col (frame s) = transaction_type_col (frame s')"
    "date_col (frame s) = None \<longleftrightarrow> date_col (frame s') = None"
    "date_col (frame s) = Some cells \<Longrightarrow> date_col (frame s') = Some cells' \<Longrightarrow>
       to_datetime env cells = to_datetime env cells'"
  using assms by (auto simp: same_data_def)

subsection \<open>What each detector does to the table\<close>

lemma frame_round: "frame (snd (detect_round_number_patterns env account s)) = frame s"
  by (simp add: detect_round_number_patterns_def Let_def split: option.splits sum.splits)

lemma frame_descriptions: "frame (snd (detect_suspicious_descriptions env account s)) = frame s"
  by (simp add: detect_suspicious_descriptions_def Let_def split: option.splits)

lemma frame_threshold_loop: "frame (snd (threshold_loop env account ts alerts s)) = frame s"
  by (induction ts arbitrary: alerts s) (simp_all add: Let_def split: option.splits)

lemma frame_threshold: "frame (snd (detect_threshold_avoidance env account s)) = frame s"
  by (simp add: detect_threshold_avoidance_def frame_threshold_loop)

lemma frame_counterparties: "frame (snd (detect_unusual_counterparties env account s)) = frame s"
  by (simp add: detect_unusual_counterparties_def Let_def split: option.splits list.splits prod.splits)

lemma frame_cash: "frame (snd (detect_cash_intensive_patterns env account s)) = frame s"
  by (simp add: detect_cash_intensive_patterns_def Let_def split: option.splits sum.splits)


lemma same_data_frequency:
  "same_data env (frame s) (frame (snd (detect_unusual_frequency_patterns env account s)))"
  by (auto simp: detect_unusual_frequency_patterns_def Let_def same_data_def to_datetime_Stamp
      split: option.splits sum.splits)

lemma same_data_end_of_period:
  "same_data env (frame s) (frame (snd (detect_end_of_period_activities env account s)))"
  by (auto simp: detect_end_of_period_activities_def Let_def same_data_def to_datetime_Stamp
      split: option.splits sum.splits)

lemma same_data_layering:
  "same_data env (frame s) (frame (snd (detect_layering_patterns env account s)))"
  by (auto simp: detect_layering_patterns_def Let_def same_data_def to_datetime_Stamp
      split: option.splits sum.splits)


subsection \<open>What each detector reads\<close>

lemma result_round:
  assumes "same_data env (frame s) (frame s')" and "ticks s = ticks s'"
  shows "fst (detect_round_number_patterns env account s)
       = fst (detect_round_number_patterns env account s')"
proof (cases "amount_col (frame s')")
  case None
  with same_dataD(2) [OF assms(1)] show ?thesis
    by (simp add: detect_round_number_patterns_def)
next
  case (Some amts)
  with same_dataD(1,2) [OF assms(1)] assms(2) show ?thesis
    by (simp add: detect_round_number_patterns_def Let_def py_truediv_def)
qed

lemma result_descriptions:
  assumes "same_data env (frame s) (frame s')" and "ticks s = ticks s'"
  shows "fst (detect_suspicious_descriptions env account s)
       = fst (detect_suspicious_descriptions env account s')"
proof (cases "description_col (frame s')")
  case None
  with same_dataD(3) [OF assms(1)] show ?thesis
    by (simp add: detect_suspicious_descriptions_def)
next
  case (Some descs)
  note d = this
  show ?thesis
  proof (cases "amount_col (frame s')")
    case None
    with d same_dataD(1,2,3) [OF assms(1)] assms(2) show ?thesis
      by (simp add: detect_suspicious_descriptions_def Let_def tick_def)
  next
    case (Some amts)
    with d same_dataD(1,2,3) [OF assms(1)] assms(2) show ?thesis
      by (simp add: detect_suspicious_descriptions_def Let_def tick_def)
  qed
qed

lemma result_threshold_loop:
  assumes "amount_col (frame s) = amount_col (frame s')" and "ticks s = ticks s'"
  shows "fst (threshold_loop env account ts alerts s) = fst (threshold_loop env account ts alerts s')"
  using assms
proof (induction ts arbitrary: alerts s s')
  case Nil
  then show ?case by simp
next
  case (Cons t ts)
  show ?case
  proof (cases "amount_col (frame s')")
    case None
    with Cons.prems show ?thesis by simp
  next
    case (Some amts)
    with Cons.prems have a: "amount_col (frame s) = Some amts" by simp
    show ?thesis
    proof (cases "3 < length (mask_rows (map (near_threshold t) amts) amts)")
      case True
      have "fst (threshold_loop env account ts al (tick s))
          = fst (threshold_loop env account ts al (tick s'))" for al
        using Cons.prems by (intro Cons.IH) (simp_all add: tick_def)
      with True Some a Cons.prems(2) show ?thesis
        by (simp add: Let_def)
    next
      case False
      have "fst (threshold_loop env account ts alerts s)
          = fst (threshold_loop env account ts alerts s')"
        using Cons.prems by (intro Cons.IH)
      with False Some a show ?thesis
        by (simp add: Let_def)
    qed
  qed
qed

lemma result_threshold:
  assumes "same_data env (frame s) (frame s')" and "ticks s = ticks s'"
  shows "fst (detect_threshold_avoidance env account s)
       = fst (detect_threshold_avoidance env account s')"
  unfolding detect_threshold_avoidance_def
  using same_dataD(2) [OF assms(1)] assms(2) by (rule result_threshold_loop)

lemma result_counterparties:
  assumes "same_data env (frame s) (frame s')" and "ticks s = ticks s'"
  shows "fst (detect_unusual_counterparties env account s)
       = fst (detect_unusual_counterparties env account s')"
proof (cases "counterparty_col (frame s')")
  case None
  with same_dataD(4) [OF assms(1)] show ?thesis
    by (simp add: detect_unusual_counterparties_def)
next
  case (Some parties)
  note p = this
  show ?thesis
  proof (cases "amount_col (frame s')")
    case None
    with p same_dataD(2,4) [OF assms(1)] show ?thesis
      by (simp add: detect_unusual_counterparties_def Let_def)
  next
    case (Some amts)
    note a = this
    show ?thesis
    proof (cases "sort_desc snd (group_sum parties amts)")
      case Nil
      with p a same_dataD(2,4) [OF assms(1)] show ?thesis
        by (simp add: detect_unusual_counterparties_def Let_def)
    next
      case (Cons top rest)
      obtain top_name top_total where "top = (top_name, top_total)" by (cases top)
      with Cons p a same_dataD(2,4) [OF assms(1)] assms(2) show ?thesis
        by (simp add: detect_unusual_counterparties_def Let_def)
    qed
  qed
qed

lemma result_cash:
  assumes "same_data env (frame s) (frame s')" and "ticks s = ticks s'"
  shows "fst (detect_cash_intensive_patterns env account s)
       = fst (detect_cash_intensive_patterns env account s')"
proof (cases "transaction_type_col (frame s')")
  case None
  with same_dataD(5) [OF assms(1)] show ?thesis
    by (simp add: detect_cash_intensive_patterns_def)
next
  case (Some types)
  note t = this
  show ?thesis
  proof (cases "amount_col (frame s')")
    case None
    with t same_dataD(1,2,5) [OF assms(1)] show ?thesis
      by (simp add: detect_cash_intensive_patterns_def Let_def py_truediv_def)
  next
    case (Some amts)
    with t same_dataD(1,2,5) [OF assms(1)] assms(2) show ?thesis
      by (simp add: detect_cash_intensive_patterns_def Let_def py_truediv_def)
  qed
qed


lemma result_frequency:
  assumes "same_data env (frame s) (frame s')" and "ticks s = ticks s'"
  shows "fst (detect_unusual_frequency_patterns env account s)
       = fst (detect_unusual_frequency_patterns env account s')"
proof (cases "date_col (frame s)")
  case None
  with same_dataD(6) [OF assms(1)] show ?thesis
    by (simp add: detect_unusual_frequency_patterns_def)
next
  case (Some cells)
  with same_dataD(6) [OF assms(1)] obtain cells' where c': "date_col (frame s') = Some cells'"
    by auto
  from same_dataD(7) [OF assms(1) Some c'] have eq: "to_datetime env cells = to_datetime env cells'" .
  show ?thesis
  proof (cases "to_datetime env cells'")
    case (Inl e)
    with eq Some c' show ?thesis
      by (simp add: detect_unusual_frequency_patterns_def)
  next
    case (Inr stamps)
    with eq have "to_datetime env cells = Inr stamps" by simp
    with Inr Some c' same_dataD(1) [OF assms(1)] assms(2) show ?thesis
      by (simp add: detect_unusual_frequency_patterns_def Let_def)
  qed
qed


lemma result_layering:
  assumes "same_data env (frame s) (frame s')" and "ticks s = ticks s'"
  shows "fst (detect_layering_patterns env account s)
       = fst (detect_layering_patterns env account s')"
proof (cases "date_col (frame s) = None \<or> transaction_type_col (frame s) = None")
  case True
  with same_dataD(5,6) [OF assms(1)]
  have "date_col (frame s') = None \<or> transaction_type_col (frame s') = None" by auto
  with True show ?thesis
    by (auto simp: detect_layering_patterns_def split: option.splits)
next
  case False
  then obtain cells types where c: "date_col (frame s) = Some cells"
    and t: "transaction_type_col (frame s) = Some types" by auto
  with same_dataD(5,6) [OF assms(1)] obtain cells' where c': "date_col (frame s') = Some cells'"
    and t': "transaction_type_col (frame s') = Some types" by auto
  from same_dataD(7) [OF assms(1) c c'] have eq: "to_datetime env cells = to_datetime env cells'" .
  show ?thesis
  proof (cases "to_datetime env cells'")
    case (Inl e)
    with eq c c' t t' show ?thesis
      by (simp add: detect_layering_patterns_def)
  next
    case (Inr stamps)
    with eq have r: "to_datetime env cells = Inr stamps" by simp
    show ?thesis
    proof (cases "amount_col (frame s')")
      case None
      with same_dataD(2) [OF assms(1)] have "amount_col (frame s) = None" by simp
      with None r Inr c c' t t' show ?thesis
        by (simp add: detect_layering_patterns_def Let_def)
    next
      case (Some amts)
      with same_dataD(2) [OF assms(1)] have "amount_col (frame s) = Some amts" by simp
      with Some r Inr c c' t t' assms(2) show ?thesis
        by (simp add: detect_layering_patterns_def Let_def)
    qed
  qed
qed


lemma result_end_of_period:
  assumes "same_data env (frame s) (frame s')" and "ticks s = ticks s'"
  shows "fst (detect_end_of_period_activities env account s)
       = fst (detect_end_of_period_activities env account s')"
proof (cases "date_col (frame s)")
  case None
  with same_dataD(6) [OF assms(1)] show ?thesis
    by (simp add: detect_end_of_period_activities_def)
next
  case (Some cells)
  with same_dataD(6) [OF assms(1)] obtain cells' where c': "date_col (frame s') = Some cells'"
    by auto
  from same_dataD(7) [OF assms(1) Some c'] have eq: "to_datetime env cells = to_datetime env cells'" .
  show ?thesis
  proof (cases "to_datetime env cells'")
    case (Inl e)
    with eq Some c' show ?thesis
      by (simp add: detect_end_of_period_activities_def)
  next
    case (Inr stamps)
    with eq have r: "to_datetime env cells = Inr stamps" by simp
    show ?thesis
    proof (cases "amount_col (frame s')")
      case None
      with same_dataD(2) [OF assms(1)] have "amount_col (frame s) = None" by simp
      with None r Inr Some c' same_dataD(1) [OF assms(1)] assms(2) show ?thesis
        by (simp add: detect_end_of_period_activities_def Let_def tick_def py_truediv_def)
    next
      case (Some amts)
      with same_dataD(2) [OF assms(1)] have "amount_col (frame s) = Some amts" by simp
      with Some r Inr \<open>date_col (frame s) = Some cells\<close> c' same_dataD(1) [OF assms(1)] assms(2)
      show ?thesis
        by (simp add: detect_end_of_period_activities_def Let_def tick_def py_truediv_def)
    qed
  qed
qed


subsection \<open>Order of execution\<close>

lemma same_data_trans:
  "same_data env a b \<Longrightarrow> same_data env b c \<Longrightarrow> same_data env a c"
  by (simp add: same_data_def)

lemma same_data_step:
  assumes "D \<in> set (detectors env account)"
  shows "same_data env (frame s) (frame (snd (D s)))"
  using assms same_data_frequency [of env s account] same_data_end_of_period [of env s account]
    same_data_layering [of env s account]
  by (auto simp: detectors_def frame_round frame_descriptions frame_threshold
      frame_counterparties frame_cash same_data_refl)

lemma same_data_run:
  assumes "set ds \<subseteq> set (detectors env account)"
  shows "same_data env (frame s) (frame (fold (\<lambda>D st. snd (D st)) ds s))"
  using assms
proof (induction ds arbitrary: s)
  case Nil
  then show ?case by (simp add: same_data_refl)
next
  case (Cons D ds)
  then have "same_data env (frame s) (frame (snd (D s)))"
    by (intro same_data_step [of D env account]) simp
  moreover from Cons have
    "same_data env (frame (snd (D s))) (frame (fold (\<lambda>D st. snd (D st)) ds (snd (D s))))"
    by simp
  ultimately show ?case
    by (simp add: same_data_trans [of env "frame s" "frame (snd (D s))"])
qed

lemma result_step:
  assumes "D \<in> set (detectors env account)"
    and "same_data env (frame s) (frame s')" and "ticks s = ticks s'"
  shows "fst (D s) = fst (D s')"
  using assms(1) result_round [OF assms(2,3)] result_descriptions [OF assms(2,3)]
    result_frequency [OF assms(2,3)] result_threshold [OF assms(2,3)]
    result_end_of_period [OF assms(2,3)] result_counterparties [OF assms(2,3)]
    result_cash [OF assms(2,3)] result_layering [OF assms(2,3)]
  by (auto simp: detectors_def)

text \<open>
  C5, as the code has it. The detectors are not all read-only. The Round-Number,
  Description, Threshold-Avoidance, Counterparty and Cash-Intensity Detectors leave the
  caller's table unchanged. The Frequency, End-of-Period and Layering Detectors assign
  the parsed timestamps to its date column, and the End-of-Period Detector adds the
  columns day_of_month and month to it. No detector reads a column that another detector
  derives: after any sequence of detectors has run on the table, each detector emits the
  alerts it emits on the original table (at the same clock reading).
\<close>

theorem detectors_and_the_table:
  "(\<forall>D \<in> set [detect_round_number_patterns env account,
                 detect_suspicious_descriptions env account,
                 detect_threshold_avoidance env account,
                 detect_unusual_counterparties env account,
                 detect_cash_intensive_patterns env account].
      frame (snd (D s)) = frame s)
   \<and> (\<forall>cells stamps. date_col (frame s) = Some cells \<and> to_datetime env cells = Inr stamps \<longrightarrow>
        frame (snd (detect_unusual_frequency_patterns env account s))
          = (frame s)\<lparr>date_col := Some (map Stamp stamps)\<rparr>
        \<and> frame (snd (detect_end_of_period_activities env account s))
          = (frame s)\<lparr>date_col := Some (map Stamp stamps),
                       day_of_month_col := Some (map day stamps),
                       month_col := Some (map month stamps)\<rparr>
        \<and> (transaction_type_col (frame s) \<noteq> None \<longrightarrow>
            frame (snd (detect_layering_patterns env account s))
              = (frame s)\<lparr>date_col := Some (map Stamp stamps)\<rparr>))
   \<and> (\<forall>D \<in> set (detectors env account). \<forall>ds.
        set ds \<subseteq> set (detectors env account') \<longrightarrow>
        fst (D ((fold (\<lambda>D' st. snd (D' st)) ds s)\<lparr>ticks := ticks s\<rparr>)) = fst (D s))"
proof -
  have 1: "\<forall>D \<in> set [detect_round_number_patterns env account,
                 detect_suspicious_descriptions env account,
                 detect_threshold_avoidance env account,
                 detect_unusual_counterparties env account,
                 detect_cash_intensive_patterns env account].
      frame (snd (D s)) = frame s"
    by (simp add: frame_round frame_descriptions frame_threshold frame_counterparties frame_cash)
  have 2: "frame (snd (detect_unusual_frequency_patterns env account s))
          = (frame s)\<lparr>date_col := Some (map Stamp stamps)\<rparr>
        \<and> frame (snd (detect_end_of_period_activities env account s))
          = (frame s)\<lparr>date_col := Some (map Stamp stamps),
                       day_of_month_col := Some (map day stamps),
                       month_col := Some (map month stamps)\<rparr>
        \<and> (transaction_type_col (frame s) \<noteq> None \<longrightarrow>
            frame (snd (detect_layering_patterns env account s))
              = (frame s)\<lparr>date_col := Some (map Stamp stamps)\<rparr>)"
    if "date_col (frame s) = Some cells" "to_datetime env cells = Inr stamps" for cells stamps
    using that
    by (auto simp: detect_unusual_frequency_patterns_def detect_end_of_period_activities_def
        detect_layering_patterns_def Let_def split: option.splits sum.splits)
  have 3: "fst (D ((fold (\<lambda>D' st. snd (D' st)) ds s)\<lparr>ticks := ticks s\<rparr>)) = fst (D s)"
    if "D \<in> set (detectors env account)" "set ds \<subseteq> set (detectors env account')" for D ds
  proof -
    from that(2) have "same_data env (frame s) (frame (fold (\<lambda>D' st. snd (D' st)) ds s))"
      by (rule same_data_run)
    then have "same_data env (frame s)
        (frame ((fold (\<lambda>D' st. snd (D' st)) ds s)\<lparr>ticks := ticks s\<rparr>))"
      by simp
    from result_step [OF that(1) this] show ?thesis by simp
  qed
  from 1 2 3 show ?thesis by blast
qed


lemma stamps_capitalized:
  "date_col (frame capitalized_types)
     = Some [Stamp (jan 5), Stamp (jan 5), Stamp (jan 6), Stamp (jan 6)]"
  "to_datetime env0 [Stamp (jan 5), Stamp (jan 5), Stamp (jan 6), Stamp (jan 6)]
     = Inr [jan 5, jan 5, jan 6, jan 6]"
  by (simp_all add: capitalized_types_def)

theorem detectors_and_the_table_witness:
  "frame (snd (detect_round_number_patterns env0 ''ACC-1'' capitalized_types))
     = frame capitalized_types
   \<and> frame (snd (detect_end_of_period_activities env0 ''ACC-1'' capitalized_types))
     = (frame capitalized_types)\<lparr>
          date_col := Some (map Stamp [jan 5, jan 5, jan 6, jan 6]),
          day_of_month_col := Some (map day [jan 5, jan 5, jan 6, jan 6]),
          month_col := Some (map month [jan 5, jan 5, jan 6, jan 6])\<rparr>
   \<and> fst (detect_layering_patterns env0 ''ACC-1''
          ((fold (\<lambda>D' st. snd (D' st))
              [detect_end_of_period_activities env0 ''ACC-1'',
               detect_unusual_frequency_patterns env0 ''ACC-1''] capitalized_types)
            \<lparr>ticks := ticks capitalized_types\<rparr>))
     = fst (detect_layering_patterns env0 ''ACC-1'' capitalized_types)"
proof -
  have m: "detect_layering_patterns env0 ''ACC-1'' \<in> set (detectors env0 ''ACC-1'')"
    by (simp add: detectors_def)
  have ds: "set [detect_end_of_period_activities env0 ''ACC-1'',
                 detect_unusual_frequency_patterns env0 ''ACC-1'']
            \<subseteq> set (detectors env0 ''ACC-1'')"
    by (simp add: detectors_def)
  note T = detectors_and_the_table [of env0 "''ACC-1''" capitalized_types "''ACC-1''"]
  from T [THEN conjunct1]
  have 1: "frame (snd (detect_round_number_patterns env0 ''ACC-1'' capitalized_types))
       = frame capitalized_types"
    by simp
  from T [THEN conjunct2, THEN conjunct1, rule_format,
      OF conjI [OF stamps_capitalized(1) stamps_capitalized(2)]]
  have 2: "frame (snd (detect_end_of_period_activities env0 ''ACC-1'' capitalized_types))
     = (frame capitalized_types)\<lparr>
          date_col := Some (map Stamp [jan 5, jan 5, jan 6, jan 6]),
          day_of_month_col := Some (map day [jan 5, jan 5, jan 6, jan 6]),
          month_col := Some (map month [jan 5, jan 5, jan 6, jan 6])\<rparr>"
    by (rule conjunct2 [THEN conjunct1])
  from T [THEN conjunct2, THEN conjunct2, rule_format, OF m ds]
  have 3: "fst (detect_layering_patterns env0 ''ACC-1''
          ((fold (\<lambda>D' st. snd (D' st))
              [detect_end_of_period_activities env0 ''ACC-1'',
               detect_unusual_frequency_patterns env0 ''ACC-1''] capitalized_types)
            \<lparr>ticks := ticks capitalized_types\<rparr>))
     = fst (detect_layering_patterns env0 ''ACC-1'' capitalized_types)" .
  from 1 2 3 show ?thesis by (intro conjI)
qed

text \<open>
  A table with a date column and no derived columns: after the End-of-Period Detector
  has run (and found nothing), the caller's table has the columns day_of_month and month.
\<close>

theorem end_of_period_writes_the_table:
  "day_of_month_col (frame capitalized_types) = None
   \<and> month_col (frame capitalized_types) = None
   \<and> fst (detect_end_of_period_activities env0 ''ACC-1'' capitalized_types) = Inr []
   \<and> day_of_month_col (frame (snd (detect_end_of_period_activities env0 ''ACC-1''
         capitalized_types))) = Some [5, 5, 6, 6]
   \<and> month_col (frame (snd (detect_end_of_period_activities env0 ''ACC-1''
         capitalized_types))) = Some [1, 1, 1, 1]
   \<and> frame (snd (detect_end_of_period_activities env0 ''ACC-1'' capitalized_types))
       \<noteq> frame capitalized_types"
proof -
  have r: "detect_end_of_period_activities env0 ''ACC-1'' capitalized_types
      = (Inr [], capitalized_types\<lparr>frame := (frame capitalized_types)\<lparr>
            date_col := Some [Stamp (jan 5), Stamp (jan 5), Stamp (jan 6), Stamp (jan 6)],
            day_of_month_col := Some [5, 5, 6, 6],
            month_col := Some [1, 1, 1, 1]\<rparr>\<rparr>)"
    by (simp add: detect_end_of_period_activities_def capitalized_types_def jan_def Let_def
        mask_count_def)
  have n: "day_of_month_col (frame capitalized_types) = None"
    "month_col (frame capitalized_types) = None"
    by (simp_all add: capitalized_types_def)
  have "frame (snd (detect_end_of_period_activities env0 ''ACC-1'' capitalized_types))
       \<noteq> frame capitalized_types"
  proof
    assume "frame (snd (detect_end_of_period_activities env0 ''ACC-1'' capitalized_types))
       = frame capitalized_types"
    then have "day_of_month_col (frame (snd (detect_end_of_period_activities env0 ''ACC-1''
         capitalized_types))) = day_of_month_col (frame capitalized_types)"
      by simp
    with n show False by (simp add: r)
  qed
  with n show ?thesis by (simp add: r)
qed

end
